theory Spec2Isabelle
  imports Main "HOL-Library.Char_ord" "HOL-Library.List_Lexorder"
    "HOL-Library.Product_Lexorder" "HOL-Library.Multiset"
begin

section \<open>Values shared by all routers\<close>

text \<open>
  Identifiers are the \<open>String\<close> ids of the Prisma schema. Strings are lists of 8-bit
  characters.
\<close>

type_synonym ident = string

text \<open>
  \<open>String.prototype.toLowerCase\<close> is a built-in of the language, not code of the
  repository. The handlers that call it take it as their parameter \<open>toLowerCase\<close>, and
  every property of these handlers below holds for whatever function that is.
  \<open>ascii_toLowerCase\<close> is what the built-in does to a string of ASCII characters (the
  letters \<open>A\<close> to \<open>Z\<close> go to \<open>a\<close> to \<open>z\<close>, every other character is kept);
  it is the argument where a handler is run on example data, whose strings are ASCII.
\<close>

definition ascii_toLowerCase_char :: "char \<Rightarrow> char" where
  "ascii_toLowerCase_char c =
     (if 65 \<le> (of_char c :: nat) \<and> (of_char c :: nat) \<le> 90
      then char_of ((of_char c :: nat) + 32) else c)"

definition ascii_toLowerCase :: "string \<Rightarrow> string" where
  "ascii_toLowerCase s = map ascii_toLowerCase_char s"

text \<open>
  \<open>v || ""\<close> on an optional string: \<open>undefined\<close>, \<open>null\<close> and the empty string
  are falsy, so the right operand is taken for all three.
\<close>

definition or_empty :: "string option \<Rightarrow> string" where
  "or_empty v = (case v of None \<Rightarrow> [] | Some s \<Rightarrow> (if s = [] then [] else s))"

text \<open>
  The engine's \<open>@default(uuid())\<close> draws an identifier that no row of the table has.
  The model picks one such identifier: a string longer than every identifier in use.
\<close>

definition uuid :: "ident list \<Rightarrow> ident" where
  "uuid used = replicate (Suc (foldr (\<lambda>s n. max (length s) n) used 0)) (CHR ''u'')"

datatype status = OK | CREATED | BAD_REQUEST | FORBIDDEN | NOT_FOUND | CONFLICT
  | INTERNAL_SERVER_ERROR

text \<open>
  A response body is \<open>{message: ...}\<close>, \<open>{error: ...}\<close>, or the entity passed to
  \<open>res.json\<close>.
\<close>

datatype 'a body = Message string | ErrorBody string | Json 'a

type_synonym 'a response = "status \<times> 'a body"

text \<open>
  What an awaited call can throw. A \<open>PrismaClientKnownRequestError\<close> carries its
  \<open>code\<close>; the handlers inspect \<open>P2002\<close> (unique constraint), \<open>P2003\<close> (foreign key)
  and \<open>P2025\<close> (a record the operation needs is missing).
\<close>

datatype error = PrismaClientKnownRequestError string
  | PrismaClientValidationError
  | Error string

abbreviation P2002 :: error where "P2002 \<equiv> PrismaClientKnownRequestError ''P2002''"
abbreviation P2003 :: error where "P2003 \<equiv> PrismaClientKnownRequestError ''P2003''"
abbreviation P2025 :: error where "P2025 \<equiv> PrismaClientKnownRequestError ''P2025''"

section \<open>The Prisma schema\<close>

datatype PostType = MEETUP | PODCAST | STANDARD

record user =
  u_id :: ident
  u_createdAt :: nat
  u_email :: string
  u_password :: "string option"
  u_username :: string
  u_image :: "string option"

record profile =
  pf_onBoardingCompleted :: bool
  pf_userId :: ident
  pf_name :: "string option"
  pf_journey :: "string option"
  pf_ambitions :: "string list"
  pf_tech :: "string list"
  pf_bio :: "string option"
  pf_githubLink :: "string option"
  pf_githubHandle :: "string option"
  pf_linkedinLink :: "string option"
  pf_linkedinHandle :: "string option"
  pf_xProfileLink :: "string option"
  pf_xProfileHandle :: "string option"
  pf_instagramLink :: "string option"
  pf_instagramHandle :: "string option"

record post =
  p_id :: ident
  p_authorId :: ident
  p_title :: string
  p_createType :: PostType
  p_groupId :: "ident option"
  p_coverImage :: "string option"
  p_audioFile :: "string option"
  p_audioTitle :: "string option"
  p_meetupLocation :: "string option"
  p_meetupDate :: "nat option"
  p_tinyContent :: "string option"
  p_createdAt :: nat
  p_views :: int

record like =
  l_userId :: ident
  l_postId :: ident

record tag =
  t_id :: ident
  t_name :: string

record comment =
  c_id :: ident
  c_content :: string
  c_createdAt :: nat
  c_authorId :: ident
  c_postId :: ident

record group =
  g_id :: ident
  g_name :: string
  g_profileImage :: string
  g_coverImage :: "string option"
  g_bio :: "string option"
  g_createdAt :: nat
  g_creatorId :: ident

record groupUser =
  gu_userId :: ident
  gu_groupId :: ident
  gu_isAdmin :: bool

text \<open>
  The data store: one list of rows per table, in insertion order. \<open>postTags\<close> is the
  join table of the implicit many-to-many relation between \<open>Post\<close> and \<open>Tag\<close>, a
  pair (post id, tag id) per association.
\<close>

record store =
  users :: "user list"
  profiles :: "profile list"
  posts :: "post list"
  tags :: "tag list"
  postTags :: "(ident \<times> ident) list"
  likes :: "like list"
  comments :: "comment list"
  groups :: "group list"
  groupUsers :: "groupUser list"

section \<open>Group router\<close>

subsection \<open>Client operations on \<open>Group\<close> and \<open>GroupUser\<close>\<close>

definition group_findUnique :: "store \<Rightarrow> ident \<Rightarrow> group option" where
  "group_findUnique db gid = find (\<lambda>g. g_id g = gid) (groups db)"

definition groupUser_findUnique :: "store \<Rightarrow> ident \<Rightarrow> ident \<Rightarrow> groupUser option" where
  "groupUser_findUnique db uid gid =
     find (\<lambda>m. gu_userId m = uid \<and> gu_groupId m = gid) (groupUsers db)"

text \<open>\<open>update\<close> throws \<open>P2025\<close> when no row has the key; it never returns \<open>null\<close>.\<close>

definition groupUser_update ::
  "store \<Rightarrow> ident \<Rightarrow> ident \<Rightarrow> bool \<Rightarrow> error + groupUser \<times> store" where
  "groupUser_update db uid gid adm =
     (case groupUser_findUnique db uid gid of
        None \<Rightarrow> Inl P2025
      | Some m \<Rightarrow>
          Inr (m\<lparr>gu_isAdmin := adm\<rparr>,
               db\<lparr>groupUsers :=
                    map (\<lambda>r. if gu_userId r = uid \<and> gu_groupId r = gid
                              then r\<lparr>gu_isAdmin := adm\<rparr> else r) (groupUsers db)\<rparr>))"

definition groupUser_delete :: "store \<Rightarrow> ident \<Rightarrow> ident \<Rightarrow> error + groupUser \<times> store" where
  "groupUser_delete db uid gid =
     (case groupUser_findUnique db uid gid of
        None \<Rightarrow> Inl P2025
      | Some m \<Rightarrow>
          Inr (m, db\<lparr>groupUsers :=
                       filter (\<lambda>r. \<not> (gu_userId r = uid \<and> gu_groupId r = gid))
                         (groupUsers db)\<rparr>))"

text \<open>
  \<open>group.update\<close>: a field that is \<open>undefined\<close> in \<open>data\<close> is left as it is. The pair
  (name, creatorId) is unique over the table.
\<close>

definition keep :: "'a option \<Rightarrow> 'a \<Rightarrow> 'a" where
  "keep new old = (case new of None \<Rightarrow> old | Some v \<Rightarrow> v)"

definition keep_opt :: "'a option \<Rightarrow> 'a option \<Rightarrow> 'a option" where
  "keep_opt new old = (case new of None \<Rightarrow> old | Some v \<Rightarrow> Some v)"

definition group_data ::
  "string option \<Rightarrow> string option \<Rightarrow> string option \<Rightarrow> string option \<Rightarrow> group \<Rightarrow> group" where
  "group_data name bio profileImage coverImage g =
     g\<lparr>g_name := keep name (g_name g),
       g_bio := keep_opt bio (g_bio g),
       g_profileImage := keep profileImage (g_profileImage g),
       g_coverImage := keep_opt coverImage (g_coverImage g)\<rparr>"

definition group_update ::
  "store \<Rightarrow> ident \<Rightarrow> string option \<Rightarrow> string option \<Rightarrow> string option \<Rightarrow> string option
     \<Rightarrow> error + group \<times> store" where
  "group_update db gid name bio profileImage coverImage =
     (case group_findUnique db gid of
        None \<Rightarrow> Inl P2025
      | Some g \<Rightarrow>
          (if (keep name (g_name g), g_creatorId g)
                \<in> set (map (\<lambda>h. (g_name h, g_creatorId h))
                         (filter (\<lambda>h. g_id h \<noteq> gid) (groups db)))
           then Inl P2002
           else Inr (group_data name bio profileImage coverImage g,
                     db\<lparr>groups :=
                          map (\<lambda>h. if g_id h = gid
                                    then group_data name bio profileImage coverImage h else h)
                            (groups db)\<rparr>)))"

text \<open>
  \<open>group.delete\<close> cascades (\<open>onDelete: Cascade\<close>) to the group's \<open>GroupUser\<close> rows and
  posts, and from those posts to their likes, comments and tag associations.
\<close>

definition group_delete :: "store \<Rightarrow> ident \<Rightarrow> error + group \<times> store" where
  "group_delete db gid =
     (case group_findUnique db gid of
        None \<Rightarrow> Inl P2025
      | Some g \<Rightarrow>
          (let gone = map p_id (filter (\<lambda>p. p_groupId p = Some gid) (posts db))
           in Inr (g, db\<lparr>groups := filter (\<lambda>h. g_id h \<noteq> gid) (groups db),
                          groupUsers := filter (\<lambda>m. gu_groupId m \<noteq> gid) (groupUsers db),
                          posts := filter (\<lambda>p. p_groupId p \<noteq> Some gid) (posts db),
                          likes := filter (\<lambda>l. l_postId l \<notin> set gone) (likes db),
                          comments := filter (\<lambda>c. c_postId c \<notin> set gone) (comments db),
                          postTags := filter (\<lambda>a. fst a \<notin> set gone) (postTags db)\<rparr>)))"

subsection \<open>Handlers gated on the creator\<close>

text \<open>
  \<open>group?.creatorId !== creatorId\<close>: when no group has the id, the left side is
  \<open>undefined\<close> and differs from every string.
\<close>

definition not_creator :: "group option \<Rightarrow> ident \<Rightarrow> bool" where
  "not_creator grp requester = (map_option g_creatorId grp \<noteq> Some requester)"

text \<open>
  The truthiness of a value that is an object (a row) or an array, as in
  \<open>if (!groupUser)\<close> and \<open>if (members)\<close>: true whatever the object or the array
  holds, the empty array included.
\<close>

definition truthy :: "'a \<Rightarrow> bool" where
  "truthy v = True"

text \<open>
  \<open>PATCH /:id/add-admin\<close> and \<open>PATCH /:id/remove-admin\<close>. \<open>update\<close> resolves to
  the updated row or throws; the \<open>catch\<close> does not look at the error code.
\<close>

definition addAdmin :: "store \<Rightarrow> ident \<Rightarrow> ident \<Rightarrow> ident \<Rightarrow> groupUser response \<times> store" where
  "addAdmin db groupId memberId creatorId =
     (if not_creator (group_findUnique db groupId) creatorId
      then ((FORBIDDEN, Message ''You are not allowed to add admins''), db)
      else (case groupUser_update db memberId groupId True of
              Inr (groupUser, db') \<Rightarrow>
                (if \<not> truthy groupUser
                 then ((NOT_FOUND, Message ''User wasn't found''), db')
                 else ((OK, Json groupUser), db'))
            | Inl error \<Rightarrow> ((INTERNAL_SERVER_ERROR, Message ''Internal server error''), db)))"

definition removeAdmin :: "store \<Rightarrow> ident \<Rightarrow> ident \<Rightarrow> ident \<Rightarrow> groupUser response \<times> store" where
  "removeAdmin db groupId memberId creatorId =
     (if not_creator (group_findUnique db groupId) creatorId
      then ((FORBIDDEN, Message ''You are not allowed to remove admins''), db)
      else (case groupUser_update db memberId groupId False of
              Inr (groupUser, db') \<Rightarrow>
                (if \<not> truthy groupUser
                 then ((NOT_FOUND, Message ''User wasn't found''), db')
                 else ((OK, Json groupUser), db'))
            | Inl error \<Rightarrow> ((INTERNAL_SERVER_ERROR, Message ''Internal server error''), db)))"

text \<open>
  \<open>PATCH /:id\<close>: the creator edits name, bio and images. The handler responds under
  \<open>if (groupUpdate)\<close>, which holds for the row that \<open>update\<close> resolves to.
\<close>

definition editGroup ::
  "store \<Rightarrow> ident \<Rightarrow> string option \<Rightarrow> string option \<Rightarrow> string option \<Rightarrow> string option
     \<Rightarrow> ident \<Rightarrow> group response \<times> store" where
  "editGroup db groupId name bio profileImage coverImage userId =
     (if not_creator (group_findUnique db groupId) userId
      then ((FORBIDDEN, Message ''You are not allowed to edit the group''), db)
      else (case group_update db groupId name bio profileImage coverImage of
              Inr (groupUpdate, db') \<Rightarrow> ((OK, Json groupUpdate), db')
            | Inl error \<Rightarrow> ((INTERNAL_SERVER_ERROR, ErrorBody ''Internal Server Error''), db)))"

text \<open>\<open>DELETE /:id/remove\<close>: the creator removes a member.\<close>

definition removeMember :: "store \<Rightarrow> ident \<Rightarrow> ident \<Rightarrow> ident \<Rightarrow> unit response \<times> store" where
  "removeMember db groupId memberId adminId =
     (if not_creator (group_findUnique db groupId) adminId
      then ((FORBIDDEN, Message ''You are not allowed to remove members''), db)
      else (case groupUser_delete db memberId groupId of
              Inr (deleted, db') \<Rightarrow> ((OK, Message ''User removed''), db')
            | Inl error \<Rightarrow>
                (if error = P2025
                 then ((NOT_FOUND, Message ''User not in the group''), db)
                 else ((INTERNAL_SERVER_ERROR, Message ''Internal server error''), db))))"

text \<open>\<open>DELETE /:id\<close>: responds with the group as it was read before the deletion.\<close>

definition deleteGroup :: "store \<Rightarrow> ident \<Rightarrow> ident \<Rightarrow> group response \<times> store" where
  "deleteGroup db groupId creatorId =
     (case group_findUnique db groupId of
        None \<Rightarrow> ((NOT_FOUND, Message ''Group does not exist''), db)
      | Some grp \<Rightarrow>
          (if g_creatorId grp = creatorId
           then (case group_delete db groupId of
                   Inr (groupDeleted, db') \<Rightarrow> ((OK, Json grp), db')
                 | Inl error \<Rightarrow>
                     ((INTERNAL_SERVER_ERROR, Message ''Internal server error''), db))
           else ((FORBIDDEN, Message ''Not Allowed''), db)))"

subsection \<open>Creating a group\<close>

text \<open>
  The body of \<open>POST /create\<close>. \<open>profileImage\<close> and \<open>coverImage\<close> may be absent;
  a member is a user id with an optional \<open>isAdmin\<close> (the schema default is \<open>false\<close>).
\<close>

record groupBody =
  gb_name :: string
  gb_bio :: string
  gb_profileImage :: "string option"
  gb_coverImage :: "string option"
  gb_creatorId :: ident
  gb_members :: "(ident \<times> bool option) list"

text \<open>
  The nested \<open>groupUser: {create: [...]}\<close>: one insert per row, each checked against the
  composite key (userId, groupId) and the foreign key to \<open>User\<close>.
\<close>

definition member_row :: "ident \<Rightarrow> ident \<times> bool option \<Rightarrow> groupUser" where
  "member_row gid r = \<lparr>gu_userId = fst r, gu_groupId = gid, gu_isAdmin = keep (snd r) False\<rparr>"

fun groupUser_createNested ::
  "store \<Rightarrow> ident \<Rightarrow> (ident \<times> bool option) list \<Rightarrow> error + store" where
  "groupUser_createNested db gid [] = Inr db"
| "groupUser_createNested db gid ((uid, adm) # rest) =
     (if (uid, gid) \<in> set (map (\<lambda>m. (gu_userId m, gu_groupId m)) (groupUsers db))
      then Inl P2002
      else if uid \<notin> set (map u_id (users db)) then Inl P2003
      else groupUser_createNested
             (db\<lparr>groupUsers := groupUsers db @ [member_row gid (uid, adm)]\<rparr>) gid rest)"

text \<open>
  \<open>group.create\<close> with its nested rows is one transaction: an error leaves the store as
  it was.
\<close>

definition group_create ::
  "store \<Rightarrow> nat \<Rightarrow> string \<Rightarrow> string option \<Rightarrow> string \<Rightarrow> string option \<Rightarrow> ident
     \<Rightarrow> (ident \<times> bool option) list \<Rightarrow> error + group \<times> store" where
  "group_create db now name bio profileImage coverImage creatorId rows =
     (if (name, creatorId) \<in> set (map (\<lambda>h. (g_name h, g_creatorId h)) (groups db))
      then Inl P2002
      else if creatorId \<notin> set (map u_id (users db)) then Inl P2003
      else (let g = \<lparr>g_id = uuid (map g_id (groups db)), g_name = name,
                      g_profileImage = profileImage, g_coverImage = coverImage,
                      g_bio = bio, g_createdAt = now, g_creatorId = creatorId\<rparr>
            in case groupUser_createNested (db\<lparr>groups := groups db @ [g]\<rparr>) (g_id g) rows of
                 Inl e \<Rightarrow> Inl e
               | Inr db' \<Rightarrow> Inr (g, db')))"

definition createGroup ::
  "(string \<Rightarrow> string) \<Rightarrow> store \<Rightarrow> nat \<Rightarrow> groupBody \<Rightarrow> group response \<times> store" where
  "createGroup toLowerCase db now b =
     (case group_create db now (toLowerCase (gb_name b)) (Some (toLowerCase (gb_bio b)))
             (or_empty (gb_profileImage b)) (gb_coverImage b) (gb_creatorId b)
             ((gb_creatorId b, Some True) # gb_members b) of
        Inr (g, db') \<Rightarrow> ((OK, Json g), db')
      | Inl error \<Rightarrow>
          (if error = P2002 then ((CONFLICT, Message ''Group already exists''), db)
           else ((INTERNAL_SERVER_ERROR, Message ''Internal server error''), db)))"

subsection \<open>Listing the members of a group\<close>

text \<open>
  \<open>groupUser.findMany\<close> with \<open>where: {groupId}\<close>, \<open>skip\<close> and \<open>take\<close>, each row with
  the \<open>id\<close>, \<open>image\<close> and \<open>profile\<close> of its user. With \<open>skip\<close> and \<open>take\<close> and no
  \<open>orderBy\<close>, the client pages the rows in the order of the primary key
  (userId, groupId), text being compared character by character. It rejects a \<open>skip\<close>
  that is negative or does not fit a 64-bit signed integer.
\<close>

type_synonym memberUser = "ident \<times> string option \<times> profile option"

definition include_user :: "store \<Rightarrow> groupUser \<Rightarrow> groupUser \<times> memberUser option" where
  "include_user db m =
     (m, map_option
           (\<lambda>u. (u_id u, u_image u, find (\<lambda>p. pf_userId p = u_id u) (profiles db)))
           (find (\<lambda>u. u_id u = gu_userId m) (users db)))"

definition groupUser_findMany ::
  "store \<Rightarrow> ident \<Rightarrow> int \<Rightarrow> nat \<Rightarrow> error + (groupUser \<times> memberUser option) list" where
  "groupUser_findMany db gid skip tk =
     (if skip < 0 then Inl PrismaClientValidationError
      else if 9223372036854775807 < skip then Inl (PrismaClientKnownRequestError ''P2033'')
      else Inr (map (include_user db)
                  (take tk (drop (nat skip)
                     (sort_key (\<lambda>m. (gu_userId m, gu_groupId m))
                        (filter (\<lambda>m. gu_groupId m = gid) (groupUsers db)))))))"

text \<open>
  \<open>GET /:id/admins\<close>. \<open>page\<close> is the number read from the query string when the
  parameter is present and not empty; otherwise the page is 1.
\<close>

definition listAdmins ::
  "store \<Rightarrow> ident \<Rightarrow> int option \<Rightarrow> (groupUser \<times> memberUser option) list response" where
  "listAdmins db groupId page =
     (let pageSize = 10;
          skip = (keep page 1 - 1) * pageSize
      in case groupUser_findMany db groupId skip (nat pageSize) of
           Inr members \<Rightarrow>
             (if truthy members then (OK, Json members)
              else (NOT_FOUND, Message ''No members yet''))
         | Inl error \<Rightarrow> (INTERNAL_SERVER_ERROR, ErrorBody ''Internal Server Error''))"

section \<open>Authentication router\<close>

text \<open>
  The password hashing library is not part of the repository: \<open>bc_hashSync\<close> is
  \<open>bcrypt.hashSync\<close> with the salt drawn when the module is loaded, \<open>bc_compare\<close> is
  the comparison of a password with a stored hash string.
\<close>

record bcrypt =
  bc_hashSync :: "string \<Rightarrow> string"
  bc_compare :: "string \<Rightarrow> string \<Rightarrow> bool"

text \<open>
  \<open>bcrypt.compare(data, hash)\<close> rejects when \<open>hash\<close> is \<open>null\<close> or \<open>undefined\<close>.
\<close>

definition bcrypt_compare :: "bcrypt \<Rightarrow> string \<Rightarrow> string option \<Rightarrow> error + bool" where
  "bcrypt_compare bc data hash =
     (case hash of
        None \<Rightarrow> Inl (Error ''data and hash arguments required'')
      | Some h \<Rightarrow> Inr (bc_compare bc data h))"

definition new_profile :: "ident \<Rightarrow> profile" where
  "new_profile uid =
     \<lparr>pf_onBoardingCompleted = False, pf_userId = uid, pf_name = None, pf_journey = None,
      pf_ambitions = [], pf_tech = [], pf_bio = None, pf_githubLink = None,
      pf_githubHandle = None, pf_linkedinLink = None, pf_linkedinHandle = None,
      pf_xProfileLink = None, pf_xProfileHandle = None, pf_instagramLink = None,
      pf_instagramHandle = None\<rparr>"

text \<open>\<open>user.create\<close> with the nested profile; \<open>email\<close> is unique.\<close>

definition user_create ::
  "store \<Rightarrow> nat \<Rightarrow> string \<Rightarrow> string \<Rightarrow> string option \<Rightarrow> error + user \<times> store" where
  "user_create db now username email password =
     (if email \<in> set (map u_email (users db)) then Inl P2002
      else (let u = \<lparr>u_id = uuid (map u_id (users db)), u_createdAt = now, u_email = email,
                      u_password = password, u_username = username, u_image = None\<rparr>
            in Inr (u, db\<lparr>users := users db @ [u],
                           profiles := profiles db @ [new_profile (u_id u)]\<rparr>)))"

definition user_findUnique :: "store \<Rightarrow> string \<Rightarrow> user option" where
  "user_findUnique db email = find (\<lambda>u. u_email u = email) (users db)"

definition user_findUnique_profile :: "store \<Rightarrow> string \<Rightarrow> (user \<times> profile option) option" where
  "user_findUnique_profile db email =
     map_option (\<lambda>u. (u, find (\<lambda>p. pf_userId p = u_id u) (profiles db)))
       (user_findUnique db email)"

text \<open>\<open>POST /register\<close> and \<open>POST /register/social\<close>.\<close>

definition register ::
  "bcrypt \<Rightarrow> (string \<Rightarrow> string) \<Rightarrow> store \<Rightarrow> nat \<Rightarrow> string \<Rightarrow> string \<Rightarrow> string
     \<Rightarrow> unit response \<times> store" where
  "register bc toLowerCase db now username email password =
     (let hashedPassword = bc_hashSync bc password
      in case user_create db now username (toLowerCase email) (Some hashedPassword) of
           Inr (created, db') \<Rightarrow> ((CREATED, Message ''User created successfully''), db')
         | Inl error \<Rightarrow>
             (if error = P2002 then ((CONFLICT, Message ''Error user already exists''), db)
              else ((INTERNAL_SERVER_ERROR, Message ''Internal server error''), db)))"

definition registerSocial ::
  "(string \<Rightarrow> string) \<Rightarrow> store \<Rightarrow> nat \<Rightarrow> string \<Rightarrow> string \<Rightarrow> unit response \<times> store" where
  "registerSocial toLowerCase db now username email =
     (let userEmail = toLowerCase email
      in case user_create db now username userEmail None of
           Inr (created, db') \<Rightarrow> ((CREATED, Message ''User created successfully''), db')
         | Inl error \<Rightarrow>
             (if error = P2002 then ((CONFLICT, Message ''Error: User already exists''), db)
              else ((INTERNAL_SERVER_ERROR, Message ''Internal server error''), db)))"

text \<open>
  \<open>POST /login\<close>, as the router has it now: the stored hash goes through
  \<open>storedPassword || ""\<close> before the comparison.
\<close>

definition login :: "bcrypt \<Rightarrow> store \<Rightarrow> string \<Rightarrow> string \<Rightarrow> user response" where
  "login bc db email password =
     (case user_findUnique db email of
        None \<Rightarrow> (BAD_REQUEST, Message ''No user found'')
      | Some userFound \<Rightarrow>
          (let storedPassword = u_password userFound
           in case bcrypt_compare bc password (Some (or_empty storedPassword)) of
                Inr isAuthenticated \<Rightarrow>
                  (if \<not> isAuthenticated
                   then (BAD_REQUEST, Message ''Incorrect email or password'')
                   else (OK, Json userFound))
              | Inl error \<Rightarrow> (INTERNAL_SERVER_ERROR, Message ''Internal server error'')))"

text \<open>
  The first revision of \<open>POST /login\<close> in the same file passes \<open>userFound.password\<close>
  to the comparison as it is stored.
\<close>

definition login_first_revision :: "bcrypt \<Rightarrow> store \<Rightarrow> string \<Rightarrow> string \<Rightarrow> user response" where
  "login_first_revision bc db email password =
     (case user_findUnique db email of
        None \<Rightarrow> (BAD_REQUEST, Message ''No user found'')
      | Some userFound \<Rightarrow>
          (case bcrypt_compare bc password (u_password userFound) of
             Inr isAuthenticated \<Rightarrow>
               (if \<not> isAuthenticated
                then (BAD_REQUEST, Message ''Incorrect email or password'')
                else (OK, Json userFound))
           | Inl error \<Rightarrow> (INTERNAL_SERVER_ERROR, Message ''Internal server error'')))"

text \<open>
  \<open>POST /user\<close>. The lookup resolves to the user with its profile, or to \<open>null\<close>
  when no user has the email. \<open>fault\<close> is what the awaited lookup throws when the
  engine cannot answer at all; the store itself never makes a lookup throw.
\<close>

definition getUserByEmail ::
  "error option \<Rightarrow> store \<Rightarrow> string \<Rightarrow> (user \<times> profile option) option response" where
  "getUserByEmail fault db email =
     (case fault of
        None \<Rightarrow> (OK, Json (user_findUnique_profile db email))
      | Some error \<Rightarrow> (OK, Message ''User not found''))"

section \<open>Post router\<close>

subsection \<open>Client operations on \<open>Tag\<close>, \<open>Post\<close> and \<open>Like\<close>\<close>

text \<open>\<open>tag.findUnique\<close> by name with \<open>select: {id: true}\<close>; \<open>tag.create\<close> under the
  unique constraint on \<open>name\<close>.\<close>

definition tag_findUnique :: "store \<Rightarrow> string \<Rightarrow> ident option" where
  "tag_findUnique db name = map_option t_id (find (\<lambda>t. t_name t = name) (tags db))"

definition tag_create :: "store \<Rightarrow> string \<Rightarrow> error + ident \<times> store" where
  "tag_create db name =
     (if name \<in> set (map t_name (tags db)) then Inl P2002
      else (let t = \<lparr>t_id = uuid (map t_id (tags db)), t_name = name\<rparr>
            in Inr (t_id t, db\<lparr>tags := tags db @ [t]\<rparr>)))"

record postBody =
  b_authorId :: ident
  b_title :: string
  b_createType :: "PostType option"
  b_groupId :: "ident option"
  b_coverImage :: "string option"
  b_audioFile :: "string option"
  b_audioTitle :: "string option"
  b_meetupLocation :: "string option"
  b_meetupDate :: "nat option"
  b_tinyContent :: "string option"
  b_interestTechTags :: "string list"

definition tag_names :: "store \<Rightarrow> ident \<Rightarrow> string list" where
  "tag_names db pid =
     map t_name (filter (\<lambda>t. (pid, t_id t) \<in> set (postTags db)) (tags db))"

text \<open>
  \<open>post.create\<close> with \<open>interestTechTags: {connect: [...]}\<close> and the tag names
  included in the result. The author and the group are foreign keys; every tag to
  connect must exist; an association is stored once however often its id is listed.
\<close>

definition post_create ::
  "store \<Rightarrow> nat \<Rightarrow> postBody \<Rightarrow> ident list \<Rightarrow> error + (post \<times> string list) \<times> store" where
  "post_create db now b tagIds =
     (if b_authorId b \<notin> set (map u_id (users db)) then Inl P2003
      else if (case b_groupId b of None \<Rightarrow> False
               | Some g \<Rightarrow> g \<notin> set (map g_id (groups db))) then Inl P2003
      else if \<not> list_all (\<lambda>i. i \<in> set (map t_id (tags db))) tagIds then Inl P2025
      else (let p = \<lparr>p_id = uuid (map p_id (posts db)), p_authorId = b_authorId b,
                      p_title = b_title b, p_createType = keep (b_createType b) STANDARD,
                      p_groupId = b_groupId b, p_coverImage = b_coverImage b,
                      p_audioFile = b_audioFile b, p_audioTitle = b_audioTitle b,
                      p_meetupLocation = b_meetupLocation b, p_meetupDate = b_meetupDate b,
                      p_tinyContent = b_tinyContent b, p_createdAt = now, p_views = 0\<rparr>;
                db' = db\<lparr>posts := posts db @ [p],
                         postTags := postTags db @ map (\<lambda>i. (p_id p, i)) (remdups tagIds)\<rparr>
            in Inr ((p, tag_names db' (p_id p)), db')))"

definition post_findUnique :: "store \<Rightarrow> ident \<Rightarrow> post option" where
  "post_findUnique db pid = find (\<lambda>p. p_id p = pid) (posts db)"

text \<open>\<open>post.update\<close> with \<open>data: {title, tinyContent}\<close>: a field that is
  \<open>undefined\<close> is left as it is.\<close>

definition post_data :: "string option \<Rightarrow> string option \<Rightarrow> post \<Rightarrow> post" where
  "post_data title tinyContent p =
     p\<lparr>p_title := keep title (p_title p),
       p_tinyContent := keep_opt tinyContent (p_tinyContent p)\<rparr>"

definition post_update ::
  "store \<Rightarrow> ident \<Rightarrow> string option \<Rightarrow> string option \<Rightarrow> error + post \<times> store" where
  "post_update db pid title tinyContent =
     (case post_findUnique db pid of
        None \<Rightarrow> Inl P2025
      | Some p \<Rightarrow>
          Inr (post_data title tinyContent p,
               db\<lparr>posts := map (\<lambda>q. if p_id q = pid then post_data title tinyContent q else q)
                              (posts db)\<rparr>))"

text \<open>
  \<open>post.update\<close> with \<open>data: {likes: {create: {userId}}}\<close>: the post is looked up
  first, then the \<open>Like\<close> row is inserted under its composite key and its foreign key
  to \<open>User\<close>.
\<close>

definition post_update_likes_create :: "store \<Rightarrow> ident \<Rightarrow> ident \<Rightarrow> error + post \<times> store" where
  "post_update_likes_create db pid uid =
     (case post_findUnique db pid of
        None \<Rightarrow> Inl P2025
      | Some p \<Rightarrow>
          (if (uid, pid) \<in> set (map (\<lambda>l. (l_userId l, l_postId l)) (likes db)) then Inl P2002
           else if uid \<notin> set (map u_id (users db)) then Inl P2003
           else Inr (p, db\<lparr>likes := likes db @ [\<lparr>l_userId = uid, l_postId = pid\<rparr>]\<rparr>)))"

definition like_delete :: "store \<Rightarrow> ident \<Rightarrow> ident \<Rightarrow> error + like \<times> store" where
  "like_delete db uid pid =
     (case find (\<lambda>l. l_userId l = uid \<and> l_postId l = pid) (likes db) of
        None \<Rightarrow> Inl P2025
      | Some l \<Rightarrow>
          Inr (l, db\<lparr>likes := filter (\<lambda>r. \<not> (l_userId r = uid \<and> l_postId r = pid))
                                  (likes db)\<rparr>))"

subsection \<open>Creating a post\<close>

text \<open>
  \<open>Promise.all(interestTechTags.map(async (tag) => ...))\<close>: \<open>map\<close> calls the
  callback for every name in turn, and each call runs up to its first \<open>await\<close>, so
  every \<open>findUnique\<close> is issued, against the store as the request found it, before
  the continuation of any callback runs. The continuations then run in order; the one
  of a name that was not found issues \<open>tag.create\<close>. The store serves the requests in
  the order in which they are issued.
\<close>

fun resolveTags ::
  "store \<Rightarrow> (string \<times> ident option) list \<Rightarrow> store \<times> (error + ident) list" where
  "resolveTags db [] = (db, [])"
| "resolveTags db ((tag, Some existingTag) # rest) =
     (let (db', rs) = resolveTags db rest in (db', Inr existingTag # rs))"
| "resolveTags db ((tag, None) # rest) =
     (case tag_create db tag of
        Inr (createdTag, db1) \<Rightarrow>
          (let (db', rs) = resolveTags db1 rest in (db', Inr createdTag # rs))
      | Inl e \<Rightarrow> (let (db', rs) = resolveTags db rest in (db', Inl e # rs)))"

text \<open>\<open>Promise.all\<close> rejects with the first rejection, and resolves to all values
  otherwise. The calls that are under way are not cancelled.\<close>

fun Promise_all :: "(error + 'a) list \<Rightarrow> error + 'a list" where
  "Promise_all [] = Inr []"
| "Promise_all (Inl e # rs) = Inl e"
| "Promise_all (Inr v # rs) = (case Promise_all rs of Inl e \<Rightarrow> Inl e | Inr vs \<Rightarrow> Inr (v # vs))"

text \<open>The names that the lookups did not find, in the order of the request.\<close>

definition unresolved :: "(string \<times> ident option) list \<Rightarrow> string list" where
  "unresolved fs = map fst (filter (\<lambda>f. snd f = None) fs)"

definition createPost ::
  "store \<Rightarrow> nat \<Rightarrow> postBody \<Rightarrow> (post \<times> string list) response \<times> store" where
  "createPost db now b =
     (let found = map (\<lambda>tag. (tag, tag_findUnique db tag)) (b_interestTechTags b);
          (db1, outcomes) = resolveTags db found
      in case Promise_all outcomes of
           Inl error \<Rightarrow> ((INTERNAL_SERVER_ERROR, Message ''Internal server error''), db1)
         | Inr tagIds \<Rightarrow>
             (case post_create db1 now b tagIds of
                Inr (created, db2) \<Rightarrow> ((OK, Json created), db2)
              | Inl error \<Rightarrow>
                  ((INTERNAL_SERVER_ERROR, Message ''Internal server error''), db1)))"

subsection \<open>Editing, liking and unliking a post\<close>

definition updatePost ::
  "store \<Rightarrow> ident \<Rightarrow> string option \<Rightarrow> string option \<Rightarrow> post response \<times> store" where
  "updatePost db postId title tinyContent =
     (case post_update db postId title tinyContent of
        Inr (updated, db') \<Rightarrow> ((OK, Json updated), db')
      | Inl error \<Rightarrow>
          (if error = P2025 then ((NOT_FOUND, Message ''Post to update does not exist''), db)
           else ((INTERNAL_SERVER_ERROR, Message ''Internal server error''), db)))"

definition likePost :: "store \<Rightarrow> ident \<Rightarrow> ident \<Rightarrow> unit response \<times> store" where
  "likePost db likedPostId likerId =
     (case post_update_likes_create db likedPostId likerId of
        Inr (updated, db') \<Rightarrow> ((OK, Message ''You now like this post''), db')
      | Inl error \<Rightarrow>
          (if error = P2002 then ((CONFLICT, Message ''You can't like a post twice''), db)
           else if error = P2003
           then ((NOT_FOUND, Message ''User with this ID not found''), db)
           else if error = P2025
           then ((NOT_FOUND, Message ''Post with this ID not found''), db)
           else ((INTERNAL_SERVER_ERROR, Message ''Internal server error''), db)))"

definition unlikePost :: "store \<Rightarrow> ident \<Rightarrow> ident \<Rightarrow> unit response \<times> store" where
  "unlikePost db likedPostId likerId =
     (case like_delete db likerId likedPostId of
        Inr (deleted, db') \<Rightarrow> ((OK, Message ''Unliked this post''), db')
      | Inl error \<Rightarrow>
          (if error = P2025
           then ((NOT_FOUND, Message ''Record to delete does not exist''), db)
           else ((INTERNAL_SERVER_ERROR, Message ''Internal server error''), db)))"

section \<open>Constraints of the schema\<close>

text \<open>The foreign keys of \<open>Like\<close>: every row refers to a user and to a post.\<close>

definition like_references :: "store \<Rightarrow> bool" where
  "like_references db =
     list_all (\<lambda>l. l_userId l \<in> set (map u_id (users db))
                  \<and> l_postId l \<in> set (map p_id (posts db))) (likes db)"

section \<open>Example data\<close>

text \<open>
  A small store on which the properties below are run: two users, one of them registered
  through a social login (no password hash), and one group created by the first user.
  \<open>toy_bcrypt\<close> stands in for the hashing library on these runs.
\<close>

definition toy_bcrypt :: bcrypt where
  "toy_bcrypt =
     \<lparr>bc_hashSync = (\<lambda>p. ''hash:'' @ p), bc_compare = (\<lambda>p h. h = ''hash:'' @ p)\<rparr>"

definition alice :: user where
  "alice = \<lparr>u_id = ''u1'', u_createdAt = 0, u_email = ''alice@x.com'',
            u_password = Some ''hash:secret'', u_username = ''alice'', u_image = None\<rparr>"

definition bob :: user where
  "bob = \<lparr>u_id = ''u2'', u_createdAt = 1, u_email = ''bob@x.com'',
          u_password = None, u_username = ''bob'', u_image = None\<rparr>"

definition rustaceans :: group where
  "rustaceans = \<lparr>g_id = ''g1'', g_name = ''rustaceans'', g_profileImage = '''',
                 g_coverImage = None, g_bio = Some ''we like rust'', g_createdAt = 2,
                 g_creatorId = ''u1''\<rparr>"

definition store0 :: store where
  "store0 = \<lparr>users = [alice, bob], profiles = [new_profile ''u1'', new_profile ''u2''],
             posts = [], tags = [], postTags = [], likes = [], comments = [],
             groups = [rustaceans],
             groupUsers = [\<lparr>gu_userId = ''u1'', gu_groupId = ''g1'', gu_isAdmin = True\<rparr>]\<rparr>"

text \<open>
  The same store with one post of the first user in the group, tagged \<open>rust\<close> and liked
  by the second user.
\<close>

definition hello :: post where
  "hello = \<lparr>p_id = ''p1'', p_authorId = ''u1'', p_title = ''Hello'', p_createType = MEETUP,
            p_groupId = Some ''g1'', p_coverImage = Some ''cover.png'', p_audioFile = None,
            p_audioTitle = None, p_meetupLocation = Some ''Oslo'', p_meetupDate = Some 77,
            p_tinyContent = None, p_createdAt = 3, p_views = 12\<rparr>"

definition store1 :: store where
  "store1 = store0\<lparr>posts := [hello],
                   tags := [\<lparr>t_id = ''t1'', t_name = ''rust''\<rparr>],
                   postTags := [(''p1'', ''t1'')],
                   likes := [\<lparr>l_userId = ''u2'', l_postId = ''p1''\<rparr>]\<rparr>"

text \<open>A request to create a post that names the tag \<open>rust\<close> twice.\<close>

definition rust_post :: postBody where
  "rust_post = \<lparr>b_authorId = ''u1'', b_title = ''Ownership'', b_createType = Some STANDARD,
                b_groupId = None, b_coverImage = None, b_audioFile = None,
                b_audioTitle = None, b_meetupLocation = None, b_meetupDate = None,
                b_tinyContent = Some ''borrow checker'',
                b_interestTechTags = [''rust'', ''rust'']\<rparr>"

text \<open>
  Two requests to create a group, and the store after the creator of \<open>g1\<close> has
  renamed it to \<open>Rustaceans\<close> through \<open>PATCH /:id\<close>.
\<close>

definition gophers_body :: groupBody where
  "gophers_body = \<lparr>gb_name = ''Gophers'', gb_bio = ''We Like Go'', gb_profileImage = None,
                   gb_coverImage = None, gb_creatorId = ''u1'',
                   gb_members = [(''u2'', None)]\<rparr>"

definition rustaceans_body :: groupBody where
  "rustaceans_body = \<lparr>gb_name = ''Rustaceans'', gb_bio = ''Again'',
                      gb_profileImage = Some [], gb_coverImage = None,
                      gb_creatorId = ''u1'', gb_members = []\<rparr>"

definition store_renamed :: store where
  "store_renamed = snd (editGroup store0 ''g1'' (Some ''Rustaceans'') None None None ''u1'')"

text \<open>
  The first store after the creator of \<open>g1\<close> has removed the group's only
  membership row, the creator's own.
\<close>

definition store_emptied :: store where
  "store_emptied = snd (removeMember store0 ''g1'' ''u1'' ''u1'')"

section \<open>Properties of the group router's creator gate\<close>

text \<open>
  C1. For each of the five mutations gated on the creator (editGroup, deleteGroup,
  addAdmin, removeAdmin, removeMember): when the group exists and the requester's id
  differs from the group's \<open>creatorId\<close>, the response is 403 Forbidden and the store
  returned is the store the call was given, so no row of any table has changed.
\<close>

theorem creator_gate_forbidden:
  assumes "group_findUnique db groupId = Some g" and "g_creatorId g \<noteq> requester"
  shows "editGroup db groupId name bio profileImage coverImage requester
           = ((FORBIDDEN, Message ''You are not allowed to edit the group''), db)
       \<and> deleteGroup db groupId requester = ((FORBIDDEN, Message ''Not Allowed''), db)
       \<and> addAdmin db groupId memberId requester
           = ((FORBIDDEN, Message ''You are not allowed to add admins''), db)
       \<and> removeAdmin db groupId memberId requester
           = ((FORBIDDEN, Message ''You are not allowed to remove admins''), db)
       \<and> removeMember db groupId memberId requester
           = ((FORBIDDEN, Message ''You are not allowed to remove members''), db)"
  using assms
  by (simp add: editGroup_def deleteGroup_def addAdmin_def removeAdmin_def removeMember_def
        not_creator_def)

theorem creator_gate_forbidden_witness:
  "group_findUnique store0 ''g1'' = Some rustaceans \<and> g_creatorId rustaceans \<noteq> ''u2''
   \<and> editGroup store0 ''g1'' (Some ''gophers'') None None None ''u2''
        = ((FORBIDDEN, Message ''You are not allowed to edit the group''), store0)
   \<and> deleteGroup store0 ''g1'' ''u2'' = ((FORBIDDEN, Message ''Not Allowed''), store0)
   \<and> addAdmin store0 ''g1'' ''u2'' ''u2''
        = ((FORBIDDEN, Message ''You are not allowed to add admins''), store0)
   \<and> removeAdmin store0 ''g1'' ''u1'' ''u2''
        = ((FORBIDDEN, Message ''You are not allowed to remove admins''), store0)
   \<and> removeMember store0 ''g1'' ''u1'' ''u2''
        = ((FORBIDDEN, Message ''You are not allowed to remove members''), store0)"
proof -
  have f: "group_findUnique store0 ''g1'' = Some rustaceans"
    by (simp add: group_findUnique_def store0_def rustaceans_def)
  have c: "g_creatorId rustaceans \<noteq> ''u2''"
    by (simp add: rustaceans_def)
  from creator_gate_forbidden [OF f c] f c show ?thesis by blast
qed

text \<open>
  When no group has the id, \<open>DELETE /:id\<close> answers 404 and the other four handlers
  answer 403; the store is unchanged as well.
\<close>

lemma creator_gate_missing_group:
  assumes "group_findUnique db groupId = None"
  shows "editGroup db groupId name bio profileImage coverImage requester
           = ((FORBIDDEN, Message ''You are not allowed to edit the group''), db)
       \<and> deleteGroup db groupId requester = ((NOT_FOUND, Message ''Group does not exist''), db)
       \<and> addAdmin db groupId memberId requester
           = ((FORBIDDEN, Message ''You are not allowed to add admins''), db)
       \<and> removeAdmin db groupId memberId requester
           = ((FORBIDDEN, Message ''You are not allowed to remove admins''), db)
       \<and> removeMember db groupId memberId requester
           = ((FORBIDDEN, Message ''You are not allowed to remove members''), db)"
  using assms
  by (simp add: editGroup_def deleteGroup_def addAdmin_def removeAdmin_def removeMember_def
        not_creator_def)

section \<open>Properties of the authentication router\<close>

lemma find_append:
  "find P (xs @ ys) = (case find P xs of None \<Rightarrow> find P ys | Some x \<Rightarrow> Some x)"
  by (induction xs) auto

lemma or_empty_Some: "or_empty (Some h) = h"
  by (simp add: or_empty_def)

lemma or_empty_None: "or_empty None = []"
  by (simp add: or_empty_def)

lemma user_findUnique_None:
  "user_findUnique db e = None \<longleftrightarrow> e \<notin> set (map u_email (users db))"
  by (auto simp: user_findUnique_def find_None_iff)

lemma user_findUnique_Some:
  "user_findUnique db e = Some u \<Longrightarrow> u \<in> set (users db) \<and> u_email u = e"
  by (auto simp: user_findUnique_def find_Some_iff)

text \<open>
  C3. login(email, password), for a comparison function that rejects the empty hash
  string as the library does: when no user row has exactly that email the response is
  400 with the message "No user found"; when the user found has no stored hash the
  comparison counts as a mismatch; a mismatch gives 400 with the message "Incorrect
  email or password"; a match gives 200 with the stored user row. The handler's
  \<open>catch\<close> branch (500) is never reached.
\<close>

theorem login_outcomes:
  assumes "\<And>p. \<not> bc_compare bc p []"
  shows "(email \<notin> set (map u_email (users db)) \<longrightarrow>
            login bc db email password = (BAD_REQUEST, Message ''No user found''))
       \<and> (\<forall>u. user_findUnique db email = Some u \<longrightarrow>
            (u_password u = None \<longrightarrow>
               login bc db email password
                 = (BAD_REQUEST, Message ''Incorrect email or password''))
          \<and> (\<forall>h. u_password u = Some h \<longrightarrow>
               login bc db email password
                 = (if bc_compare bc password h then (OK, Json u)
                    else (BAD_REQUEST, Message ''Incorrect email or password''))))
       \<and> fst (login bc db email password) \<noteq> INTERNAL_SERVER_ERROR"
proof -
  have none: "login bc db email password = (BAD_REQUEST, Message ''No user found'')"
    if "email \<notin> set (map u_email (users db))"
    using that user_findUnique_None [of db email] by (simp add: login_def)
  have null: "login bc db email password
                = (BAD_REQUEST, Message ''Incorrect email or password'')"
    if "user_findUnique db email = Some u" "u_password u = None" for u
    using that assms by (simp add: login_def bcrypt_compare_def or_empty_None)
  have hash: "login bc db email password
                = (if bc_compare bc password h then (OK, Json u)
                   else (BAD_REQUEST, Message ''Incorrect email or password''))"
    if "user_findUnique db email = Some u" "u_password u = Some h" for u h
    using that by (simp add: login_def bcrypt_compare_def or_empty_Some)
  have no500: "fst (login bc db email password) \<noteq> INTERNAL_SERVER_ERROR"
    by (simp add: login_def bcrypt_compare_def split: option.splits)
  from none null hash no500 show ?thesis by blast
qed

theorem login_outcomes_witness:
  "login toy_bcrypt store0 ''carol@x.com'' ''secret'' = (BAD_REQUEST, Message ''No user found'')
   \<and> user_findUnique store0 ''bob@x.com'' = Some bob \<and> u_password bob = None
   \<and> login toy_bcrypt store0 ''bob@x.com'' ''secret''
        = (BAD_REQUEST, Message ''Incorrect email or password'')
   \<and> user_findUnique store0 ''alice@x.com'' = Some alice
   \<and> u_password alice = Some ''hash:secret''
   \<and> login toy_bcrypt store0 ''alice@x.com'' ''secret'' = (OK, Json alice)
   \<and> login toy_bcrypt store0 ''alice@x.com'' ''wrong''
        = (BAD_REQUEST, Message ''Incorrect email or password'')"
proof -
  have toy: "\<And>p. \<not> bc_compare toy_bcrypt p []"
    by (simp add: toy_bcrypt_def)
  have carol: "''carol@x.com'' \<notin> set (map u_email (users store0))"
    by (simp add: store0_def alice_def bob_def)
  have fb: "user_findUnique store0 ''bob@x.com'' = Some bob"
    by (simp add: user_findUnique_def store0_def alice_def bob_def)
  have pb: "u_password bob = None"
    by (simp add: bob_def)
  have fa: "user_findUnique store0 ''alice@x.com'' = Some alice"
    by (simp add: user_findUnique_def store0_def alice_def bob_def)
  have pa: "u_password alice = Some ''hash:secret''"
    by (simp add: alice_def)
  have y: "bc_compare toy_bcrypt ''secret'' ''hash:secret''"
    by (simp add: toy_bcrypt_def)
  have n: "\<not> bc_compare toy_bcrypt ''wrong'' ''hash:secret''"
    by (simp add: toy_bcrypt_def)
  note a = login_outcomes [OF toy, of "''carol@x.com''" store0 "''secret''"]
  note b = login_outcomes [OF toy, of "''bob@x.com''" store0 "''secret''"]
  note c = login_outcomes [OF toy, of "''alice@x.com''" store0 "''secret''"]
  note d = login_outcomes [OF toy, of "''alice@x.com''" store0 "''wrong''"]
  from a carol
  have 1: "login toy_bcrypt store0 ''carol@x.com'' ''secret''
             = (BAD_REQUEST, Message ''No user found'')"
    by blast
  from b fb pb
  have 2: "login toy_bcrypt store0 ''bob@x.com'' ''secret''
             = (BAD_REQUEST, Message ''Incorrect email or password'')"
    by blast
  from c fa pa y
  have 3: "login toy_bcrypt store0 ''alice@x.com'' ''secret'' = (OK, Json alice)"
    by simp
  from d fa pa n
  have 4: "login toy_bcrypt store0 ''alice@x.com'' ''wrong''
             = (BAD_REQUEST, Message ''Incorrect email or password'')"
    by simp
  from 1 2 3 4 fb pb fa pa show ?thesis by blast
qed

text \<open>
  The first revision of the handler agrees with the present one on every user that has
  a stored hash; on a user without one its comparison throws and the response is 500.
\<close>

lemma login_first_revision_agrees:
  "user_findUnique db email = Some u \<Longrightarrow> u_password u = Some h \<Longrightarrow>
   login_first_revision bc db email password = login bc db email password"
  by (simp add: login_first_revision_def login_def bcrypt_compare_def or_empty_Some)

lemma login_first_revision_null_hash:
  "user_findUnique db email = Some u \<Longrightarrow> u_password u = None \<Longrightarrow>
   login_first_revision bc db email password
     = (INTERNAL_SERVER_ERROR, Message ''Internal server error'')"
  by (simp add: login_first_revision_def bcrypt_compare_def)

text \<open>
  C7. For a hashing library whose comparison accepts the hash of the same password, and
  for whatever \<open>toLowerCase\<close> is: register stores the lower-cased email, so when
  no user has that lower-cased email the call answers 201, the new row carries \<open>toLowerCase email\<close>, a login with the
  lower-cased email and the same password answers 200 with that row, and every further
  register with an email that lower-cases to the same string answers 409 and leaves the
  store alone. When the lower-cased email is already stored, register answers 409.
\<close>

theorem register_login_round_trip:
  assumes "\<And>p. bc_compare bc p (bc_hashSync bc p)"
  shows "(toLowerCase email \<notin> set (map u_email (users db)) \<longrightarrow>
            (\<exists>u db'. register bc toLowerCase db now username email password
                        = ((CREATED, Message ''User created successfully''), db')
               \<and> users db' = users db @ [u]
               \<and> u_email u = toLowerCase email \<and> u_username u = username
               \<and> login bc db' (toLowerCase email) password = (OK, Json u)
               \<and> (\<forall>email' now' username' password'.
                     toLowerCase email' = toLowerCase email \<longrightarrow>
                     register bc toLowerCase db' now' username' email' password'
                       = ((CONFLICT, Message ''Error user already exists''), db'))))
       \<and> (toLowerCase email \<in> set (map u_email (users db)) \<longrightarrow>
            register bc toLowerCase db now username email password
              = ((CONFLICT, Message ''Error user already exists''), db))"
proof (intro conjI impI)
  assume fresh: "toLowerCase email \<notin> set (map u_email (users db))"
  define u where "u = \<lparr>u_id = uuid (map u_id (users db)), u_createdAt = now,
                       u_email = toLowerCase email,
                       u_password = Some (bc_hashSync bc password), u_username = username,
                       u_image = None\<rparr>"
  define db' where "db' = db\<lparr>users := users db @ [u],
                              profiles := profiles db @ [new_profile (u_id u)]\<rparr>"
  have reg: "register bc toLowerCase db now username email password
               = ((CREATED, Message ''User created successfully''), db')"
    using fresh by (simp add: register_def user_create_def Let_def u_def db'_def)
  have found: "user_findUnique db' (toLowerCase email) = Some u"
    using fresh user_findUnique_None [of db "toLowerCase email"]
    by (simp add: user_findUnique_def db'_def find_append u_def)
  have log: "login bc db' (toLowerCase email) password = (OK, Json u)"
    using found assms
    by (simp add: login_def bcrypt_compare_def or_empty_Some u_def)
  have again: "register bc toLowerCase db' now' username' email' password'
                 = ((CONFLICT, Message ''Error user already exists''), db')"
    if "toLowerCase email' = toLowerCase email" for email' now' username' password'
    using that by (simp add: register_def user_create_def db'_def u_def)
  show "\<exists>u db'. register bc toLowerCase db now username email password
                        = ((CREATED, Message ''User created successfully''), db')
               \<and> users db' = users db @ [u]
               \<and> u_email u = toLowerCase email \<and> u_username u = username
               \<and> login bc db' (toLowerCase email) password = (OK, Json u)
               \<and> (\<forall>email' now' username' password'.
                     toLowerCase email' = toLowerCase email \<longrightarrow>
                     register bc toLowerCase db' now' username' email' password'
                       = ((CONFLICT, Message ''Error user already exists''), db'))"
    using reg log again by (intro exI [of _ u] exI [of _ db']) (simp add: db'_def u_def)
next
  assume "toLowerCase email \<in> set (map u_email (users db))"
  then show "register bc toLowerCase db now username email password
               = ((CONFLICT, Message ''Error user already exists''), db)"
    by (simp add: register_def user_create_def)
qed

lemma lower_A_at_b: "ascii_toLowerCase ''A@b.com'' = ''a@b.com''"
  by code_simp

lemma lower_a_at_B: "ascii_toLowerCase ''a@B.COM'' = ''a@b.com''"
  by code_simp

lemma lower_Alice: "ascii_toLowerCase ''Alice@X.com'' = ''alice@x.com''"
  by code_simp

theorem register_login_round_trip_witness:
  "fst (register toy_bcrypt ascii_toLowerCase store0 5 ''carol'' ''A@b.com'' ''pw'')
     = (CREATED, Message ''User created successfully'')
   \<and> fst (login toy_bcrypt (snd (register toy_bcrypt ascii_toLowerCase store0 5 ''carol'' ''A@b.com'' ''pw''))
           ''a@b.com'' ''pw'') = OK
   \<and> fst (register toy_bcrypt ascii_toLowerCase (snd (register toy_bcrypt ascii_toLowerCase store0 5 ''carol'' ''A@b.com'' ''pw''))
           6 ''caroline'' ''a@B.COM'' ''other'')
       = (CONFLICT, Message ''Error user already exists'')
   \<and> register toy_bcrypt ascii_toLowerCase store0 7 ''alice2'' ''Alice@X.com'' ''pw''
       = ((CONFLICT, Message ''Error user already exists''), store0)"
proof -
  have toy: "\<And>p. bc_compare toy_bcrypt p (bc_hashSync toy_bcrypt p)"
    by (simp add: toy_bcrypt_def)
  have fresh: "ascii_toLowerCase ''A@b.com'' \<notin> set (map u_email (users store0))"
    by (simp add: lower_A_at_b store0_def alice_def bob_def)
  have taken: "ascii_toLowerCase ''Alice@X.com'' \<in> set (map u_email (users store0))"
    by (simp add: lower_Alice store0_def alice_def bob_def)
  have same: "ascii_toLowerCase ''a@B.COM'' = ascii_toLowerCase ''A@b.com''"
    by (simp add: lower_A_at_b lower_a_at_B)
  from register_login_round_trip [OF toy, where toLowerCase = ascii_toLowerCase
      and email = "''A@b.com''" and db = store0 and now = 5 and username = "''carol''"
      and password = "''pw''"] fresh
  obtain u db' where
    r: "register toy_bcrypt ascii_toLowerCase store0 5 ''carol'' ''A@b.com'' ''pw''
          = ((CREATED, Message ''User created successfully''), db')"
    and l: "login toy_bcrypt db' (ascii_toLowerCase ''A@b.com'') ''pw'' = (OK, Json u)"
    and c: "\<forall>email' now' username' password'.
              ascii_toLowerCase email' = ascii_toLowerCase ''A@b.com'' \<longrightarrow>
              register toy_bcrypt ascii_toLowerCase db' now' username' email' password'
                = ((CONFLICT, Message ''Error user already exists''), db')"
    by blast
  from c same
  have c': "register toy_bcrypt ascii_toLowerCase db' 6 ''caroline'' ''a@B.COM'' ''other''
              = ((CONFLICT, Message ''Error user already exists''), db')"
    by blast
  from register_login_round_trip [OF toy, where toLowerCase = ascii_toLowerCase
      and email = "''Alice@X.com''" and db = store0 and now = 7 and username = "''alice2''"
      and password = "''pw''"]
    taken
  have t: "register toy_bcrypt ascii_toLowerCase store0 7 ''alice2'' ''Alice@X.com'' ''pw''
             = ((CONFLICT, Message ''Error user already exists''), store0)"
    by blast
  from r l c' t show ?thesis
    by (simp add: lower_A_at_b)
qed

text \<open>
  \<open>POST /user\<close> always answers 200, and a lookup that throws gives the message
  "User not found".
\<close>

lemma getUserByEmail_status: "fst (getUserByEmail fault db email) = OK"
  by (simp add: getUserByEmail_def split: option.splits)

lemma getUserByEmail_fault:
  "getUserByEmail (Some e) db email = (OK, Message ''User not found'')"
  by (simp add: getUserByEmail_def)

lemma getUserByEmail_no_user:
  "email \<notin> set (map u_email (users db)) \<Longrightarrow> getUserByEmail None db email = (OK, Json None)"
  using user_findUnique_None [of db email]
  by (simp add: getUserByEmail_def user_findUnique_profile_def)

text \<open>
  C9. A lookup of an email that no user has does not throw: it resolves to \<open>null\<close>,
  and the response is 200 with the body \<open>null\<close>, not with a "not found" message.
\<close>

theorem getUserByEmail_no_user_is_null:
  "getUserByEmail None store0 ''carol@x.com'' = (OK, Json None)"
  by (simp add: getUserByEmail_def user_findUnique_profile_def user_findUnique_def
        store0_def alice_def bob_def)

section \<open>Properties of the group router's listing and admin flags\<close>

text \<open>
  For a page number from 1 on whose offset the client accepts, the listing answers 200
  with the rows of the group in key order from offset (page - 1) * 10, ten at most; no
  input makes it answer 404.
\<close>

lemma listAdmins_page:
  "1 \<le> n \<Longrightarrow> (n - 1) * 10 \<le> 9223372036854775807 \<Longrightarrow>
   listAdmins db groupId (Some n)
     = (OK, Json (map (include_user db)
               (take 10 (drop (nat ((n - 1) * 10))
                  (sort_key (\<lambda>m. (gu_userId m, gu_groupId m))
                     (filter (\<lambda>m. gu_groupId m = groupId) (groupUsers db)))))))"
  by (simp add: listAdmins_def groupUser_findMany_def truthy_def keep_def)

lemma listAdmins_never_NOT_FOUND: "fst (listAdmins db groupId page) \<noteq> NOT_FOUND"
  by (simp add: listAdmins_def groupUser_findMany_def truthy_def Let_def)

text \<open>
  Two rows inserted out of key order are listed in key order, and a page whose offset
  the client rejects is answered with 500.
\<close>

lemma listAdmins_key_order:
  "map fst (case snd (listAdmins
        (store0\<lparr>groupUsers :=
                   [\<lparr>gu_userId = ''u2'', gu_groupId = ''g1'', gu_isAdmin = False\<rparr>,
                    \<lparr>gu_userId = ''u1'', gu_groupId = ''g1'', gu_isAdmin = True\<rparr>]\<rparr>)
        ''g1'' None) of Json rows \<Rightarrow> rows | _ \<Rightarrow> [])
   = [\<lparr>gu_userId = ''u1'', gu_groupId = ''g1'', gu_isAdmin = True\<rparr>,
      \<lparr>gu_userId = ''u2'', gu_groupId = ''g1'', gu_isAdmin = False\<rparr>]"
  by (simp add: listAdmins_def groupUser_findMany_def truthy_def keep_def include_user_def
        store0_def less_eq_char_def less_char_def)

lemma listAdmins_huge_page:
  "listAdmins db groupId (Some 10000000000000000000000)
     = (INTERNAL_SERVER_ERROR, ErrorBody ''Internal Server Error'')"
  by (simp add: listAdmins_def groupUser_findMany_def keep_def)

text \<open>
  C4. An empty result is answered with 200 and the empty list, not with 404: for group
  \<open>g1\<close> once it has no member left, and for page 2 of the same group while it has one
  member.
\<close>

theorem listAdmins_empty_is_OK:
  "group_findUnique store_emptied ''g1'' = Some rustaceans
   \<and> filter (\<lambda>m. gu_groupId m = ''g1'') (groupUsers store_emptied) = []
   \<and> listAdmins store_emptied ''g1'' None = (OK, Json [])
   \<and> length (filter (\<lambda>m. gu_groupId m = ''g1'') (groupUsers store0)) = 1
   \<and> listAdmins store0 ''g1'' (Some 2) = (OK, Json [])"
  by (simp add: listAdmins_def groupUser_findMany_def truthy_def keep_def store_emptied_def
        removeMember_def not_creator_def group_findUnique_def groupUser_delete_def
        groupUser_findUnique_def store0_def rustaceans_def)

text \<open>
  When the membership row exists, the creator's call sets or clears its flag.
\<close>

lemma addAdmin_sets_flag:
  "group_findUnique db groupId = Some g \<Longrightarrow> g_creatorId g = creatorId \<Longrightarrow>
   groupUser_findUnique db memberId groupId = Some m \<Longrightarrow>
   addAdmin db groupId memberId creatorId
     = ((OK, Json (m\<lparr>gu_isAdmin := True\<rparr>)),
        db\<lparr>groupUsers :=
             map (\<lambda>r. if gu_userId r = memberId \<and> gu_groupId r = groupId
                       then r\<lparr>gu_isAdmin := True\<rparr> else r) (groupUsers db)\<rparr>)"
  by (simp add: addAdmin_def not_creator_def groupUser_update_def truthy_def)

lemma removeAdmin_clears_flag:
  "group_findUnique db groupId = Some g \<Longrightarrow> g_creatorId g = creatorId \<Longrightarrow>
   groupUser_findUnique db memberId groupId = Some m \<Longrightarrow>
   removeAdmin db groupId memberId creatorId
     = ((OK, Json (m\<lparr>gu_isAdmin := False\<rparr>)),
        db\<lparr>groupUsers :=
             map (\<lambda>r. if gu_userId r = memberId \<and> gu_groupId r = groupId
                       then r\<lparr>gu_isAdmin := False\<rparr> else r) (groupUsers db)\<rparr>)"
  by (simp add: removeAdmin_def not_creator_def groupUser_update_def truthy_def)

text \<open>
  When the row is missing, the creator's call is answered with 500 and changes nothing;
  no call to either handler is answered with 404.
\<close>

lemma addAdmin_missing_row:
  "group_findUnique db groupId = Some g \<Longrightarrow> g_creatorId g = creatorId \<Longrightarrow>
   groupUser_findUnique db memberId groupId = None \<Longrightarrow>
   addAdmin db groupId memberId creatorId
     = ((INTERNAL_SERVER_ERROR, Message ''Internal server error''), db)
   \<and> removeAdmin db groupId memberId creatorId
     = ((INTERNAL_SERVER_ERROR, Message ''Internal server error''), db)"
  by (simp add: addAdmin_def removeAdmin_def not_creator_def groupUser_update_def)

lemma addAdmin_never_NOT_FOUND:
  "fst (fst (addAdmin db groupId memberId creatorId)) \<noteq> NOT_FOUND
   \<and> fst (fst (removeAdmin db groupId memberId creatorId)) \<noteq> NOT_FOUND"
  by (simp add: addAdmin_def removeAdmin_def groupUser_update_def truthy_def
      split: option.splits)

text \<open>
  C5. The creator of group \<open>g1\<close> promotes or demotes a user who has no membership
  row in the group: the update throws \<open>P2025\<close>, the \<open>catch\<close> does not look at the
  code, and the response is 500, not 404.
\<close>

theorem addAdmin_missing_member_is_500:
  "group_findUnique store0 ''g1'' = Some rustaceans \<and> g_creatorId rustaceans = ''u1''
   \<and> groupUser_findUnique store0 ''u2'' ''g1'' = None
   \<and> addAdmin store0 ''g1'' ''u2'' ''u1''
       = ((INTERNAL_SERVER_ERROR, Message ''Internal server error''), store0)
   \<and> removeAdmin store0 ''g1'' ''u2'' ''u1''
       = ((INTERNAL_SERVER_ERROR, Message ''Internal server error''), store0)"
  by (simp add: addAdmin_def removeAdmin_def not_creator_def group_findUnique_def
        groupUser_update_def groupUser_findUnique_def store0_def rustaceans_def)

section \<open>Properties of the post router\<close>

lemma post_findUnique_None:
  "post_findUnique db pid = None \<longleftrightarrow> pid \<notin> set (map p_id (posts db))"
  by (auto simp: post_findUnique_def find_None_iff)

lemma post_findUnique_Some:
  "post_findUnique db pid = Some p \<Longrightarrow> p \<in> set (posts db) \<and> p_id p = pid"
  by (auto simp: post_findUnique_def find_Some_iff)

lemma tag_create_Inr:
  "tag_create d name = Inr (i, d') \<longleftrightarrow>
   name \<notin> set (map t_name (tags d)) \<and> i = uuid (map t_id (tags d))
   \<and> d' = d\<lparr>tags := tags d @ [\<lparr>t_id = i, t_name = name\<rparr>]\<rparr>"
  by (auto simp: tag_create_def Let_def)

lemma tag_create_Inl:
  "tag_create d name = Inl e \<longleftrightarrow> name \<in> set (map t_name (tags d)) \<and> e = P2002"
  by (auto simp: tag_create_def Let_def)

lemma resolveTags_Some:
  "resolveTags d ((tag, Some i) # rest)
     = (fst (resolveTags d rest), Inr i # snd (resolveTags d rest))"
  by (simp split: prod.splits)

lemma resolveTags_new:
  "tag \<notin> set (map t_name (tags d)) \<Longrightarrow>
   resolveTags d ((tag, None) # rest)
     = (fst (resolveTags (d\<lparr>tags := tags d @ [\<lparr>t_id = uuid (map t_id (tags d)), t_name = tag\<rparr>]\<rparr>) rest),
        Inr (uuid (map t_id (tags d)))
          # snd (resolveTags (d\<lparr>tags := tags d @ [\<lparr>t_id = uuid (map t_id (tags d)), t_name = tag\<rparr>]\<rparr>) rest))"
  by (simp add: tag_create_def Let_def split: prod.splits)

lemma resolveTags_taken:
  "tag \<in> set (map t_name (tags d)) \<Longrightarrow>
   resolveTags d ((tag, None) # rest)
     = (fst (resolveTags d rest), Inl P2002 # snd (resolveTags d rest))"
  by (simp add: tag_create_def split: prod.splits)

lemma resolveTags_distinct:
  "distinct (map t_name (tags d)) \<Longrightarrow>
   distinct (map t_name (tags (fst (resolveTags d fs))))"
proof (induction fs arbitrary: d)
  case Nil
  then show ?case by simp
next
  case (Cons f fs)
  obtain tag r where f: "f = (tag, r)" by (cases f)
  show ?case
  proof (cases r)
    case (Some i)
    with Cons f show ?thesis by (simp only: resolveTags_Some fst_conv)
  next
    case None
    show ?thesis
    proof (cases "tag \<in> set (map t_name (tags d))")
      case True
      with Cons f None show ?thesis by (simp only: resolveTags_taken fst_conv)
    next
      case False
      let ?d1 = "d\<lparr>tags := tags d @ [\<lparr>t_id = uuid (map t_id (tags d)), t_name = tag\<rparr>]\<rparr>"
      from False Cons.prems have "distinct (map t_name (tags ?d1))" by simp
      moreover have "fst (resolveTags d ((tag, None) # fs)) = fst (resolveTags ?d1 fs)"
        using resolveTags_new [OF False, of fs] by simp
      ultimately show ?thesis
        using Cons.IH [of ?d1] f None by simp
    qed
  qed
qed

lemma resolveTags_only_tags:
  "fst (resolveTags d fs) = d\<lparr>tags := tags (fst (resolveTags d fs))\<rparr>"
proof (induction fs arbitrary: d)
  case Nil
  then show ?case by simp
next
  case (Cons f fs)
  obtain tag r where f: "f = (tag, r)" by (cases f)
  show ?case
  proof (cases r)
    case (Some i)
    with Cons [of d] f show ?thesis by (simp only: resolveTags_Some fst_conv)
  next
    case None
    show ?thesis
    proof (cases "tag \<in> set (map t_name (tags d))")
      case True
      with Cons [of d] f None show ?thesis by (simp only: resolveTags_taken fst_conv)
    next
      case False
      let ?d1 = "d\<lparr>tags := tags d @ [\<lparr>t_id = uuid (map t_id (tags d)), t_name = tag\<rparr>]\<rparr>"
      have "fst (resolveTags ?d1 fs) = ?d1\<lparr>tags := tags (fst (resolveTags ?d1 fs))\<rparr>"
        by (rule Cons)
      then have "fst (resolveTags ?d1 fs) = d\<lparr>tags := tags (fst (resolveTags ?d1 fs))\<rparr>"
        by simp
      moreover have "fst (resolveTags d ((tag, None) # fs)) = fst (resolveTags ?d1 fs)"
        using resolveTags_new [OF False, of fs] by simp
      ultimately show ?thesis
        using f None by simp
    qed
  qed
qed

lemma createPost_tags:
  "tags (snd (createPost db now b))
     = tags (fst (resolveTags db (map (\<lambda>tag. (tag, tag_findUnique db tag))
                                   (b_interestTechTags b))))"
  by (auto simp: createPost_def post_create_def Let_def split: sum.splits if_splits prod.splits)

lemma createPost_tags_distinct:
  "distinct (map t_name (tags db)) \<Longrightarrow>
   distinct (map t_name (tags (snd (createPost db now b))))"
  by (simp only: createPost_tags resolveTags_distinct)


lemma unresolved_Cons_Some: "unresolved ((tag, Some i) # fs) = unresolved fs"
  by (simp add: unresolved_def)

lemma unresolved_Cons_None: "unresolved ((tag, None) # fs) = tag # unresolved fs"
  by (simp add: unresolved_def)

lemma Promise_all_Inr_Cons:
  "(\<exists>vs. Promise_all (Inr v # rs) = Inr vs) \<longleftrightarrow> (\<exists>vs. Promise_all rs = Inr vs)"
  by (cases "Promise_all rs") auto

lemma resolveTags_resolves_iff:
  "(\<exists>ids. Promise_all (snd (resolveTags d fs)) = Inr ids)
     \<longleftrightarrow> distinct (unresolved fs) \<and> set (unresolved fs) \<inter> set (map t_name (tags d)) = {}"
proof (induction fs arbitrary: d)
  case Nil
  then show ?case by (simp add: unresolved_def)
next
  case (Cons f fs)
  obtain tag r where f: "f = (tag, r)" by (cases f)
  show ?case
  proof (cases r)
    case (Some i)
    have "snd (resolveTags d ((tag, Some i) # fs)) = Inr i # snd (resolveTags d fs)"
      by (simp only: resolveTags_Some snd_conv)
    with Cons [of d] f Some show ?thesis
      by (simp only: Promise_all_Inr_Cons unresolved_Cons_Some)
  next
    case None
    show ?thesis
    proof (cases "tag \<in> set (map t_name (tags d))")
      case True
      have "snd (resolveTags d ((tag, None) # fs)) = Inl P2002 # snd (resolveTags d fs)"
        using resolveTags_taken [OF True, of fs] by simp
      with True f None show ?thesis
        by (auto simp: unresolved_Cons_None)
    next
      case False
      let ?d1 = "d\<lparr>tags := tags d @ [\<lparr>t_id = uuid (map t_id (tags d)), t_name = tag\<rparr>]\<rparr>"
      have "snd (resolveTags d ((tag, None) # fs))
              = Inr (uuid (map t_id (tags d))) # snd (resolveTags ?d1 fs)"
        using resolveTags_new [OF False, of fs] by simp
      then have "(\<exists>ids. Promise_all (snd (resolveTags d ((tag, None) # fs))) = Inr ids)
                   \<longleftrightarrow> (\<exists>ids. Promise_all (snd (resolveTags ?d1 fs)) = Inr ids)"
        by (simp only: Promise_all_Inr_Cons)
      also have "\<dots> \<longleftrightarrow> distinct (unresolved fs)
                          \<and> set (unresolved fs) \<inter> set (map t_name (tags ?d1)) = {}"
        by (rule Cons)
      also have "\<dots> \<longleftrightarrow> distinct (unresolved ((tag, None) # fs))
                   \<and> set (unresolved ((tag, None) # fs)) \<inter> set (map t_name (tags d)) = {}"
        using False by (auto simp: unresolved_Cons_None)
      finally show ?thesis using f None by simp
    qed
  qed
qed

lemma tag_findUnique_None:
  "tag_findUnique db name = None \<longleftrightarrow> name \<notin> set (map t_name (tags db))"
  by (auto simp: tag_findUnique_def find_None_iff)

lemma unresolved_lookups:
  "unresolved (map (\<lambda>tag. (tag, tag_findUnique db tag)) ts)
     = filter (\<lambda>n. n \<notin> set (map t_name (tags db))) ts"
  by (induction ts) (auto simp: unresolved_def tag_findUnique_None)

lemma createPost_resolves_iff:
  "(\<exists>ids. Promise_all (snd (resolveTags db (map (\<lambda>tag. (tag, tag_findUnique db tag)) ts)))
            = Inr ids)
     \<longleftrightarrow> distinct (filter (\<lambda>n. n \<notin> set (map t_name (tags db))) ts)"
  by (auto simp: resolveTags_resolves_iff unresolved_lookups)

text \<open>
  Whether every continuation resolves does not depend on the order in which the
  continuations are served.
\<close>

lemma unresolved_mset:
  "mset (unresolved fs) = image_mset fst (filter_mset (\<lambda>f. snd f = None) (mset fs))"
  by (simp add: unresolved_def)

lemma resolveTags_order_irrelevant:
  assumes "mset fs' = mset fs"
  shows "(\<exists>ids. Promise_all (snd (resolveTags d fs')) = Inr ids)
           \<longleftrightarrow> (\<exists>ids. Promise_all (snd (resolveTags d fs)) = Inr ids)"
proof -
  from assms have m: "mset (unresolved fs') = mset (unresolved fs)"
    by (simp add: unresolved_mset)
  then have "distinct (unresolved fs') = distinct (unresolved fs)"
    by (rule mset_eq_imp_distinct_iff)
  moreover from m have "set (unresolved fs') = set (unresolved fs)"
    by (rule mset_eq_setD)
  ultimately show ?thesis
    by (simp add: resolveTags_resolves_iff)
qed

text \<open>
  Whenever a name without a \<open>Tag\<close> row occurs twice in the request, the response is 500
  and no post is created.
\<close>

lemma createPost_repeated_new_tag:
  assumes "\<not> distinct (filter (\<lambda>n. n \<notin> set (map t_name (tags db))) (b_interestTechTags b))"
  shows "fst (createPost db now b)
           = (INTERNAL_SERVER_ERROR, Message ''Internal server error'')
       \<and> posts (snd (createPost db now b)) = posts db"
proof -
  let ?fs = "map (\<lambda>tag. (tag, tag_findUnique db tag)) (b_interestTechTags b)"
  obtain db1 outcomes where r: "resolveTags db ?fs = (db1, outcomes)"
    by (cases "resolveTags db ?fs")
  from assms createPost_resolves_iff [of db "b_interestTechTags b"] r
  obtain e where e: "Promise_all outcomes = Inl e"
    by (cases "Promise_all outcomes") auto
  have "fst (resolveTags db ?fs) = db\<lparr>tags := tags (fst (resolveTags db ?fs))\<rparr>"
    by (rule resolveTags_only_tags)
  with r have "db1 = db\<lparr>tags := tags db1\<rparr>"
    by simp
  then have "posts db1 = posts db"
    by (metis store.select_convs(3) store.surjective store.update_convs(4))
  with e r show ?thesis
    by (simp add: createPost_def)
qed


lemma resolveTags_extends: "\<exists>new. tags (fst (resolveTags d fs)) = tags d @ new"
proof (induction fs arbitrary: d)
  case Nil
  then show ?case by simp
next
  case (Cons f fs)
  obtain tag r where f: "f = (tag, r)" by (cases f)
  show ?case
  proof (cases r)
    case (Some i)
    with Cons [of d] f show ?thesis by (simp only: resolveTags_Some fst_conv)
  next
    case None
    show ?thesis
    proof (cases "tag \<in> set (map t_name (tags d))")
      case True
      with Cons [of d] f None show ?thesis by (simp only: resolveTags_taken fst_conv)
    next
      case False
      let ?d1 = "d\<lparr>tags := tags d @ [\<lparr>t_id = uuid (map t_id (tags d)), t_name = tag\<rparr>]\<rparr>"
      have eq: "fst (resolveTags d ((tag, None) # fs)) = fst (resolveTags ?d1 fs)"
        using resolveTags_new [OF False, of fs] by simp
      from Cons [of ?d1] obtain new where "tags (fst (resolveTags ?d1 fs)) = tags ?d1 @ new"
        by blast
      with eq f None show ?thesis by simp
    qed
  qed
qed

lemma tag_findUnique_extends:
  "tag_findUnique d n = Some i \<Longrightarrow> tags d' = tags d @ new \<Longrightarrow> tag_findUnique d' n = Some i"
  by (auto simp: tag_findUnique_def find_append split: option.splits)

lemma tag_findUnique_created:
  "n \<notin> set (map t_name (tags d)) \<Longrightarrow>
   tag_findUnique (d\<lparr>tags := tags d @ [\<lparr>t_id = i, t_name = n\<rparr>]\<rparr>) n = Some i"
  using tag_findUnique_None [of d n]
  by (simp add: tag_findUnique_def find_append)

lemma Promise_all_Inr_ConsD:
  "Promise_all (Inr v # rs) = Inr ids \<Longrightarrow> \<exists>ids'. ids = v # ids' \<and> Promise_all rs = Inr ids'"
  by (cases "Promise_all rs") auto

lemma resolveTags_lookup:
  assumes "\<And>tag i. (tag, Some i) \<in> set fs \<Longrightarrow> tag_findUnique d tag = Some i"
    and "Promise_all (snd (resolveTags d fs)) = Inr ids"
  shows "list_all2 (\<lambda>f i. tag_findUnique (fst (resolveTags d fs)) (fst f) = Some i) fs ids"
  using assms
proof (induction fs arbitrary: d ids)
  case Nil
  then show ?case by simp
next
  case (Cons f fs)
  obtain tag r where f: "f = (tag, r)" by (cases f)
  show ?case
  proof (cases r)
    case (Some i)
    have fst_eq: "fst (resolveTags d ((tag, Some i) # fs)) = fst (resolveTags d fs)"
      and snd_eq: "snd (resolveTags d ((tag, Some i) # fs)) = Inr i # snd (resolveTags d fs)"
      by (simp_all only: resolveTags_Some fst_conv snd_conv)
    from Cons.prems(2) f Some snd_eq
    obtain ids' where ids: "ids = i # ids'" and p: "Promise_all (snd (resolveTags d fs)) = Inr ids'"
      using Promise_all_Inr_ConsD by metis
    have tl: "list_all2 (\<lambda>f i. tag_findUnique (fst (resolveTags d fs)) (fst f) = Some i) fs ids'"
      using Cons.IH [OF _ p] Cons.prems(1) by simp
    have "tag_findUnique d tag = Some i"
      using Cons.prems(1) f Some by simp
    then have hd: "tag_findUnique (fst (resolveTags d fs)) tag = Some i"
      using resolveTags_extends [of d fs] tag_findUnique_extends by blast
    from hd tl ids f Some fst_eq show ?thesis by simp
  next
    case None
    show ?thesis
    proof (cases "tag \<in> set (map t_name (tags d))")
      case True
      have "snd (resolveTags d ((tag, None) # fs)) = Inl P2002 # snd (resolveTags d fs)"
        using resolveTags_taken [OF True, of fs] by simp
      with Cons.prems(2) f None show ?thesis by simp
    next
      case False
      let ?i = "uuid (map t_id (tags d))"
      let ?d1 = "d\<lparr>tags := tags d @ [\<lparr>t_id = ?i, t_name = tag\<rparr>]\<rparr>"
      have fst_eq: "fst (resolveTags d ((tag, None) # fs)) = fst (resolveTags ?d1 fs)"
        and snd_eq: "snd (resolveTags d ((tag, None) # fs)) = Inr ?i # snd (resolveTags ?d1 fs)"
        using resolveTags_new [OF False, of fs] by simp_all
      from Cons.prems(2) f None snd_eq
      obtain ids' where ids: "ids = ?i # ids'"
        and p: "Promise_all (snd (resolveTags ?d1 fs)) = Inr ids'"
        using Promise_all_Inr_ConsD by metis
      have stable: "tag_findUnique ?d1 tag' = Some i'" if "(tag', Some i') \<in> set fs" for tag' i'
        using Cons.prems(1) [of tag' i'] that tag_findUnique_extends [of d tag' i' ?d1]
        by simp
      have tl: "list_all2 (\<lambda>f i. tag_findUnique (fst (resolveTags ?d1 fs)) (fst f) = Some i) fs ids'"
        using Cons.IH [OF stable p] by simp
      have "tag_findUnique ?d1 tag = Some ?i"
        by (rule tag_findUnique_created [OF False])
      then have hd: "tag_findUnique (fst (resolveTags ?d1 fs)) tag = Some ?i"
        using resolveTags_extends [of ?d1 fs] tag_findUnique_extends by blast
      from hd tl ids f None fst_eq show ?thesis by simp
    qed
  qed
qed

lemma resolveTags_names:
  "Promise_all (snd (resolveTags d fs)) = Inr ids \<Longrightarrow>
   map t_name (tags (fst (resolveTags d fs))) = map t_name (tags d) @ unresolved fs"
proof (induction fs arbitrary: d ids)
  case Nil
  then show ?case by (simp add: unresolved_def)
next
  case (Cons f fs)
  obtain tag r where f: "f = (tag, r)" by (cases f)
  show ?case
  proof (cases r)
    case (Some i)
    have fst_eq: "fst (resolveTags d ((tag, Some i) # fs)) = fst (resolveTags d fs)"
      and snd_eq: "snd (resolveTags d ((tag, Some i) # fs)) = Inr i # snd (resolveTags d fs)"
      by (simp_all only: resolveTags_Some fst_conv snd_conv)
    from Cons.prems f Some snd_eq
    obtain ids' where "Promise_all (snd (resolveTags d fs)) = Inr ids'"
      using Promise_all_Inr_ConsD by metis
    from Cons.IH [OF this] f Some fst_eq show ?thesis
      by (simp add: unresolved_Cons_Some)
  next
    case None
    show ?thesis
    proof (cases "tag \<in> set (map t_name (tags d))")
      case True
      have "snd (resolveTags d ((tag, None) # fs)) = Inl P2002 # snd (resolveTags d fs)"
        using resolveTags_taken [OF True, of fs] by simp
      with Cons.prems f None show ?thesis by simp
    next
      case False
      let ?i = "uuid (map t_id (tags d))"
      let ?d1 = "d\<lparr>tags := tags d @ [\<lparr>t_id = ?i, t_name = tag\<rparr>]\<rparr>"
      have fst_eq: "fst (resolveTags d ((tag, None) # fs)) = fst (resolveTags ?d1 fs)"
        and snd_eq: "snd (resolveTags d ((tag, None) # fs)) = Inr ?i # snd (resolveTags ?d1 fs)"
        using resolveTags_new [OF False, of fs] by simp_all
      from Cons.prems f None snd_eq
      obtain ids' where "Promise_all (snd (resolveTags ?d1 fs)) = Inr ids'"
        using Promise_all_Inr_ConsD by metis
      from Cons.IH [OF this] f None fst_eq show ?thesis
        by (simp add: unresolved_Cons_None)
    qed
  qed
qed

lemma tag_findUnique_id:
  "tag_findUnique d n = Some i \<Longrightarrow> i \<in> set (map t_id (tags d))"
  by (auto simp: tag_findUnique_def find_Some_iff)

text \<open>
  When every name without a \<open>Tag\<close> row occurs once in the request, and the author and
  the group exist, the post is created: each name of the request resolves to a tag id,
  the tags created are the new names, once each, and the post is connected to the ids.
\<close>

lemma createPost_OK:
  assumes new: "distinct (filter (\<lambda>n. n \<notin> set (map t_name (tags db))) (b_interestTechTags b))"
    and author: "b_authorId b \<in> set (map u_id (users db))"
    and grp: "b_groupId b = None \<or> (\<exists>g. b_groupId b = Some g \<and> g \<in> set (map g_id (groups db)))"
  shows "\<exists>p names ids db2.
           createPost db now b = ((OK, Json (p, names)), db2)
         \<and> list_all2 (\<lambda>tag i. tag_findUnique db2 tag = Some i) (b_interestTechTags b) ids
         \<and> map t_name (tags db2)
             = map t_name (tags db)
               @ filter (\<lambda>n. n \<notin> set (map t_name (tags db))) (b_interestTechTags b)
         \<and> posts db2 = posts db @ [p]
         \<and> postTags db2 = postTags db @ map (\<lambda>i. (p_id p, i)) (remdups ids)"
proof -
  let ?ts = "b_interestTechTags b"
  let ?fs = "map (\<lambda>tag. (tag, tag_findUnique db tag)) ?ts"
  obtain db1 outcomes where r: "resolveTags db ?fs = (db1, outcomes)"
    by (cases "resolveTags db ?fs")
  from new createPost_resolves_iff [of db ?ts] r
  obtain ids where ids: "Promise_all outcomes = Inr ids"
    by auto
  have p: "Promise_all (snd (resolveTags db ?fs)) = Inr ids"
    using r ids by simp
  have "list_all2 (\<lambda>f i. tag_findUnique (fst (resolveTags db ?fs)) (fst f) = Some i) ?fs ids"
    by (rule resolveTags_lookup [OF _ p]) auto
  with r have look: "list_all2 (\<lambda>tag i. tag_findUnique db1 tag = Some i) ?ts ids"
    by (simp add: list_all2_map1)
  have known: "list_all (\<lambda>i. i \<in> set (map t_id (tags db1))) ids"
    unfolding list_all_iff
  proof
    fix i
    assume "i \<in> set ids"
    then obtain k where k: "k < length ids" "ids ! k = i"
      by (auto simp: in_set_conv_nth)
    with look have "tag_findUnique db1 (?ts ! k) = Some i"
      by (auto simp: list_all2_conv_all_nth)
    then show "i \<in> set (map t_id (tags db1))"
      by (rule tag_findUnique_id)
  qed
  have names: "map t_name (tags db1)
                 = map t_name (tags db) @ filter (\<lambda>n. n \<notin> set (map t_name (tags db))) ?ts"
    using resolveTags_names [OF p] r by (simp add: unresolved_lookups)
  have "fst (resolveTags db ?fs) = db\<lparr>tags := tags (fst (resolveTags db ?fs))\<rparr>"
    by (rule resolveTags_only_tags)
  with r have db1: "db1 = db\<lparr>tags := tags db1\<rparr>"
    by simp
  have same: "users db1 = users db" "groups db1 = groups db" "posts db1 = posts db"
    "postTags db1 = postTags db"
    by (metis db1 store.select_convs store.surjective store.update_convs(4))+
  define pst where "pst = \<lparr>p_id = uuid (map p_id (posts db)), p_authorId = b_authorId b,
                      p_title = b_title b, p_createType = keep (b_createType b) STANDARD,
                      p_groupId = b_groupId b, p_coverImage = b_coverImage b,
                      p_audioFile = b_audioFile b, p_audioTitle = b_audioTitle b,
                      p_meetupLocation = b_meetupLocation b, p_meetupDate = b_meetupDate b,
                      p_tinyContent = b_tinyContent b, p_createdAt = now, p_views = 0\<rparr>"
  define db2 where "db2 = db1\<lparr>posts := posts db1 @ [pst],
                         postTags := postTags db1 @ map (\<lambda>i. (p_id pst, i)) (remdups ids)\<rparr>"
  have created: "post_create db1 now b ids = Inr ((pst, tag_names db2 (p_id pst)), db2)"
    using author grp known
    by (auto simp: post_create_def same Let_def pst_def db2_def)
  have res: "createPost db now b = ((OK, Json (pst, tag_names db2 (p_id pst))), db2)"
    using r ids created by (simp add: createPost_def)
  have look2: "list_all2 (\<lambda>tag i. tag_findUnique db2 tag = Some i) ?ts ids"
    using look by (simp add: db2_def tag_findUnique_def)
  from res look2 names same show ?thesis
    by (intro exI [of _ pst] exI [of _ "tag_names db2 (p_id pst)"] exI [of _ ids]
          exI [of _ db2])
       (simp add: db2_def)
qed

text \<open>
  C2. A request that names the new tag \<open>rust\<close> twice, on a store without that tag:
  both lookups find nothing, both continuations create the tag, the second create
  violates the unique name, \<open>Promise.all\<close> rejects, and the response is 500. One
  \<open>rust\<close> tag is left in the store and no post is created.
\<close>

theorem createPost_repeated_new_tag_is_500:
  "createPost store0 9 rust_post
     = ((INTERNAL_SERVER_ERROR, Message ''Internal server error''),
        store0\<lparr>tags := [\<lparr>t_id = ''u'', t_name = ''rust''\<rparr>]\<rparr>)"
  by (simp add: createPost_def rust_post_def tag_findUnique_def tag_create_def uuid_def
        store0_def Let_def)

lemma liked_refers:
  "like_references db \<Longrightarrow>
   (uid, pid) \<in> set (map (\<lambda>l. (l_userId l, l_postId l)) (likes db)) \<Longrightarrow>
   uid \<in> set (map u_id (users db)) \<and> pid \<in> set (map p_id (posts db))"
  by (auto simp: like_references_def list_all_iff)

lemma like_delete_None:
  assumes "(uid, pid) \<notin> set (map (\<lambda>l. (l_userId l, l_postId l)) (likes db))"
  shows "like_delete db uid pid = Inl P2025"
proof -
  from assms have "find (\<lambda>l. l_userId l = uid \<and> l_postId l = pid) (likes db) = None"
    by (force simp: find_None_iff)
  then show ?thesis by (simp add: like_delete_def)
qed

text \<open>
  C6. On a store whose \<open>Like\<close> rows satisfy their foreign keys: liking a pair that
  already has a \<open>Like\<close> row answers 409; liking a post that does not exist answers 404
  ("Post with this ID not found"); liking as a user that does not exist answers 404
  ("User with this ID not found"); the first like of an existing post by an existing
  user answers 200 and adds the row, and the same call again answers 409; unliking a
  pair that has no \<open>Like\<close> row answers 404. Every one of these error responses
  leaves the store as it was.
\<close>

theorem like_unlike_outcomes:
  assumes "like_references db"
  shows "((likerId, postId) \<in> set (map (\<lambda>l. (l_userId l, l_postId l)) (likes db)) \<longrightarrow>
            likePost db postId likerId
              = ((CONFLICT, Message ''You can't like a post twice''), db))
       \<and> (postId \<notin> set (map p_id (posts db)) \<longrightarrow>
            likePost db postId likerId
              = ((NOT_FOUND, Message ''Post with this ID not found''), db))
       \<and> (postId \<in> set (map p_id (posts db)) \<and> likerId \<notin> set (map u_id (users db)) \<longrightarrow>
            likePost db postId likerId
              = ((NOT_FOUND, Message ''User with this ID not found''), db))
       \<and> (postId \<in> set (map p_id (posts db)) \<and> likerId \<in> set (map u_id (users db))
          \<and> (likerId, postId) \<notin> set (map (\<lambda>l. (l_userId l, l_postId l)) (likes db)) \<longrightarrow>
            likePost db postId likerId
              = ((OK, Message ''You now like this post''),
                 db\<lparr>likes := likes db @ [\<lparr>l_userId = likerId, l_postId = postId\<rparr>]\<rparr>)
          \<and> likePost (snd (likePost db postId likerId)) postId likerId
              = ((CONFLICT, Message ''You can't like a post twice''),
                 snd (likePost db postId likerId)))
       \<and> ((likerId, postId) \<notin> set (map (\<lambda>l. (l_userId l, l_postId l)) (likes db)) \<longrightarrow>
            unlikePost db postId likerId
              = ((NOT_FOUND, Message ''Record to delete does not exist''), db))"
proof -
  let ?keys = "\<lambda>d. set (map (\<lambda>l. (l_userId l, l_postId l)) (likes d))"
  have dup: "likePost d postId likerId
               = ((CONFLICT, Message ''You can't like a post twice''), d)"
    if "(likerId, postId) \<in> ?keys d" "postId \<in> set (map p_id (posts d))" for d
  proof -
    from that(2) obtain p where "post_findUnique d postId = Some p"
      using post_findUnique_None [of d postId] by (cases "post_findUnique d postId") auto
    with that(1) show ?thesis
      by (simp add: likePost_def post_update_likes_create_def)
  qed
  have a: "likePost db postId likerId
               = ((CONFLICT, Message ''You can't like a post twice''), db)"
    if "(likerId, postId) \<in> ?keys db"
    using that dup [of db] liked_refers [OF assms that] by blast
  have b: "likePost db postId likerId
              = ((NOT_FOUND, Message ''Post with this ID not found''), db)"
    if "postId \<notin> set (map p_id (posts db))"
    using that post_findUnique_None [of db postId]
    by (simp add: likePost_def post_update_likes_create_def)
  have c: "likePost db postId likerId
              = ((NOT_FOUND, Message ''User with this ID not found''), db)"
    if "postId \<in> set (map p_id (posts db))" "likerId \<notin> set (map u_id (users db))"
  proof -
    from that(1) obtain p where p: "post_findUnique db postId = Some p"
      using post_findUnique_None [of db postId] by (cases "post_findUnique db postId") auto
    have "(likerId, postId) \<notin> ?keys db"
      using liked_refers [OF assms, of likerId postId] that(2) by blast
    with p that(2) show ?thesis
      by (simp add: likePost_def post_update_likes_create_def)
  qed
  have d: "likePost db postId likerId
              = ((OK, Message ''You now like this post''),
                 db\<lparr>likes := likes db @ [\<lparr>l_userId = likerId, l_postId = postId\<rparr>]\<rparr>)"
    if "postId \<in> set (map p_id (posts db))" "likerId \<in> set (map u_id (users db))"
       "(likerId, postId) \<notin> ?keys db"
  proof -
    from that(1) obtain p where p: "post_findUnique db postId = Some p"
      using post_findUnique_None [of db postId] by (cases "post_findUnique db postId") auto
    with that show ?thesis
      by (simp add: likePost_def post_update_likes_create_def)
  qed
  have e: "likePost (snd (likePost db postId likerId)) postId likerId
              = ((CONFLICT, Message ''You can't like a post twice''),
                 snd (likePost db postId likerId))"
    if "postId \<in> set (map p_id (posts db))" "likerId \<in> set (map u_id (users db))"
       "(likerId, postId) \<notin> ?keys db"
    using dup [of "db\<lparr>likes := likes db @ [\<lparr>l_userId = likerId, l_postId = postId\<rparr>]\<rparr>"]
      d [OF that] that(1) by simp
  have f: "unlikePost db postId likerId
              = ((NOT_FOUND, Message ''Record to delete does not exist''), db)"
    if "(likerId, postId) \<notin> ?keys db"
    using like_delete_None [OF that] by (simp add: unlikePost_def)
  from a b c d e f show ?thesis by blast
qed

theorem like_unlike_outcomes_witness:
  "like_references store1
   \<and> likePost store1 ''p1'' ''u2''
       = ((CONFLICT, Message ''You can't like a post twice''), store1)
   \<and> likePost store1 ''p9'' ''u1''
       = ((NOT_FOUND, Message ''Post with this ID not found''), store1)
   \<and> likePost store1 ''p1'' ''u9''
       = ((NOT_FOUND, Message ''User with this ID not found''), store1)
   \<and> likePost store1 ''p1'' ''u1''
       = ((OK, Message ''You now like this post''),
          store1\<lparr>likes := likes store1 @ [\<lparr>l_userId = ''u1'', l_postId = ''p1''\<rparr>]\<rparr>)
   \<and> unlikePost store1 ''p1'' ''u1''
       = ((NOT_FOUND, Message ''Record to delete does not exist''), store1)"
proof -
  have r: "like_references store1"
    by (simp add: like_references_def store1_def store0_def alice_def bob_def hello_def)
  have k: "set (map (\<lambda>l. (l_userId l, l_postId l)) (likes store1)) = {(''u2'', ''p1'')}"
    by (simp add: store1_def)
  have p: "set (map p_id (posts store1)) = {''p1''}"
    by (simp add: store1_def hello_def)
  have u: "set (map u_id (users store1)) = {''u1'', ''u2''}"
    by (simp add: store1_def store0_def alice_def bob_def)
  from like_unlike_outcomes [OF r, of "''u2''" "''p1''"] k
  have 1: "likePost store1 ''p1'' ''u2''
             = ((CONFLICT, Message ''You can't like a post twice''), store1)"
    by simp
  from like_unlike_outcomes [OF r, of "''u1''" "''p9''"] p
  have 2: "likePost store1 ''p9'' ''u1''
             = ((NOT_FOUND, Message ''Post with this ID not found''), store1)"
    by simp
  from like_unlike_outcomes [OF r, of "''u9''" "''p1''"] p u
  have 3: "likePost store1 ''p1'' ''u9''
             = ((NOT_FOUND, Message ''User with this ID not found''), store1)"
    by simp
  from like_unlike_outcomes [OF r, of "''u1''" "''p1''"] p u k
  have 4: "likePost store1 ''p1'' ''u1''
       = ((OK, Message ''You now like this post''),
          store1\<lparr>likes := likes store1 @ [\<lparr>l_userId = ''u1'', l_postId = ''p1''\<rparr>]\<rparr>)"
    and 5: "unlikePost store1 ''p1'' ''u1''
       = ((NOT_FOUND, Message ''Record to delete does not exist''), store1)"
    by simp_all
  from r 1 2 3 4 5 show ?thesis by blast
qed

text \<open>The foreign keys of \<open>Like\<close> hold again after every like and unlike.\<close>

lemma likePost_keeps_references:
  "like_references db \<Longrightarrow> like_references (snd (likePost db postId likerId))"
  by (auto simp: likePost_def post_update_likes_create_def like_references_def
        post_findUnique_def find_Some_iff
      split: option.splits)

lemma unlikePost_keeps_references:
  "like_references db \<Longrightarrow> like_references (snd (unlikePost db postId likerId))"
  by (auto simp: unlikePost_def like_delete_def like_references_def list_all_iff
      split: option.splits)

text \<open>
  C8. update(id, {title?, content?}): when no post has the id the response is 404 and
  the store is unchanged. When the post exists the response is 200 with the row in which
  only \<open>title\<close> and \<open>tinyContent\<close> are replaced, each only when it is given; in the
  new store every table other than \<open>posts\<close> (the tag associations among them) is as
  before, every other post row is as before, and the row with the id differs from its
  old value in these two fields at most.
\<close>

theorem updatePost_frame:
  "(postId \<notin> set (map p_id (posts db)) \<longrightarrow>
      updatePost db postId title tinyContent
        = ((NOT_FOUND, Message ''Post to update does not exist''), db))
   \<and> (\<forall>p. post_findUnique db postId = Some p \<longrightarrow>
        (\<exists>db'. updatePost db postId title tinyContent
                  = ((OK, Json (p\<lparr>p_title := keep title (p_title p),
                                   p_tinyContent := keep_opt tinyContent (p_tinyContent p)\<rparr>)),
                     db')
           \<and> db' = db\<lparr>posts := posts db'\<rparr>
           \<and> list_all2
                (\<lambda>q q'. if p_id q = postId
                         then q' = q\<lparr>p_title := keep title (p_title q),
                                     p_tinyContent := keep_opt tinyContent (p_tinyContent q)\<rparr>
                         else q' = q)
                (posts db) (posts db')))"
proof (intro conjI impI allI)
  assume "postId \<notin> set (map p_id (posts db))"
  then have "post_findUnique db postId = None"
    by (simp add: post_findUnique_None)
  then show "updatePost db postId title tinyContent
               = ((NOT_FOUND, Message ''Post to update does not exist''), db)"
    by (simp add: updatePost_def post_update_def)
next
  fix p
  assume p: "post_findUnique db postId = Some p"
  let ?db' = "db\<lparr>posts := map (\<lambda>q. if p_id q = postId then post_data title tinyContent q
                                     else q) (posts db)\<rparr>"
  have r: "updatePost db postId title tinyContent
             = ((OK, Json (p\<lparr>p_title := keep title (p_title p),
                              p_tinyContent := keep_opt tinyContent (p_tinyContent p)\<rparr>)),
                ?db')"
    using p by (simp add: updatePost_def post_update_def post_data_def)
  have rows: "list_all2
                (\<lambda>q q'. if p_id q = postId
                         then q' = q\<lparr>p_title := keep title (p_title q),
                                     p_tinyContent := keep_opt tinyContent (p_tinyContent q)\<rparr>
                         else q' = q)
                (posts db) (posts ?db')"
    by (simp add: list_all2_map2 post_data_def list_all2_same)
  from r rows
  show "\<exists>db'. updatePost db postId title tinyContent
                  = ((OK, Json (p\<lparr>p_title := keep title (p_title p),
                                   p_tinyContent := keep_opt tinyContent (p_tinyContent p)\<rparr>)),
                     db')
           \<and> db' = db\<lparr>posts := posts db'\<rparr>
           \<and> list_all2
                (\<lambda>q q'. if p_id q = postId
                         then q' = q\<lparr>p_title := keep title (p_title q),
                                     p_tinyContent := keep_opt tinyContent (p_tinyContent q)\<rparr>
                         else q' = q)
                (posts db) (posts db')"
    by (intro exI [of _ ?db']) simp
qed

theorem updatePost_frame_witness:
  "updatePost store1 ''p9'' (Some ''x'') None
     = ((NOT_FOUND, Message ''Post to update does not exist''), store1)
   \<and> post_findUnique store1 ''p1'' = Some hello
   \<and> updatePost store1 ''p1'' (Some ''Hello again'') None
       = ((OK, Json (hello\<lparr>p_title := ''Hello again''\<rparr>)),
          store1\<lparr>posts := [hello\<lparr>p_title := ''Hello again''\<rparr>]\<rparr>)"
proof -
  have n: "''p9'' \<notin> set (map p_id (posts store1))"
    by (simp add: store1_def hello_def)
  have f: "post_findUnique store1 ''p1'' = Some hello"
    by (simp add: post_findUnique_def store1_def hello_def)
  have i: "p_id hello = ''p1''"
    by (simp add: hello_def)
  from updatePost_frame [of "''p9''" store1 "Some ''x''" None] n
  have 1: "updatePost store1 ''p9'' (Some ''x'') None
             = ((NOT_FOUND, Message ''Post to update does not exist''), store1)"
    by blast
  from updatePost_frame [of "''p1''" store1 "Some ''Hello again''" None] f
  obtain db' where
    r: "updatePost store1 ''p1'' (Some ''Hello again'') None
          = ((OK, Json (hello\<lparr>p_title := keep (Some ''Hello again'') (p_title hello),
                             p_tinyContent := keep_opt None (p_tinyContent hello)\<rparr>)), db')"
    and fr: "db' = store1\<lparr>posts := posts db'\<rparr>"
    and rows: "list_all2
                (\<lambda>q q'. if p_id q = ''p1''
                         then q' = q\<lparr>p_title := keep (Some ''Hello again'') (p_title q),
                                     p_tinyContent := keep_opt None (p_tinyContent q)\<rparr>
                         else q' = q)
                (posts store1) (posts db')"
    by blast
  have ps: "posts store1 = [hello]"
    by (simp add: store1_def)
  from rows i have "posts db' = [hello\<lparr>p_title := ''Hello again''\<rparr>]"
    by (simp add: ps list_all2_Cons1 keep_def keep_opt_def)
  with fr have "db' = store1\<lparr>posts := [hello\<lparr>p_title := ''Hello again''\<rparr>]\<rparr>"
    by simp
  with r
  have 2: "updatePost store1 ''p1'' (Some ''Hello again'') None
             = ((OK, Json (hello\<lparr>p_title := ''Hello again''\<rparr>)),
                store1\<lparr>posts := [hello\<lparr>p_title := ''Hello again''\<rparr>]\<rparr>)"
    by (simp add: keep_def keep_opt_def)
  from 1 f 2 show ?thesis by blast
qed

text \<open>The fields of the row that the update leaves alone, one by one.\<close>

lemma post_data_keeps:
  "p_id (post_data title tinyContent p) = p_id p
   \<and> p_authorId (post_data title tinyContent p) = p_authorId p
   \<and> p_createType (post_data title tinyContent p) = p_createType p
   \<and> p_groupId (post_data title tinyContent p) = p_groupId p
   \<and> p_coverImage (post_data title tinyContent p) = p_coverImage p
   \<and> p_audioFile (post_data title tinyContent p) = p_audioFile p
   \<and> p_audioTitle (post_data title tinyContent p) = p_audioTitle p
   \<and> p_meetupLocation (post_data title tinyContent p) = p_meetupLocation p
   \<and> p_meetupDate (post_data title tinyContent p) = p_meetupDate p
   \<and> p_createdAt (post_data title tinyContent p) = p_createdAt p
   \<and> p_views (post_data title tinyContent p) = p_views p"
  by (simp add: post_data_def)

section \<open>Properties of group creation\<close>

lemma groupUser_createNested_Inr:
  "groupUser_createNested db gid rows = Inr db' \<Longrightarrow>
   db' = db\<lparr>groupUsers := groupUsers db @ map (member_row gid) rows\<rparr>"
proof (induction db gid rows rule: groupUser_createNested.induct)
  case (1 db gid)
  then show ?case by simp
next
  case (2 db gid uid adm rest)
  then show ?case
    by (simp split: if_splits)
qed

lemma groupUser_createNested_first:
  "groupUser_createNested db gid ((uid, adm) # rest) = Inr db' \<Longrightarrow>
   (uid, gid) \<notin> set (map (\<lambda>m. (gu_userId m, gu_groupId m)) (groupUsers db))"
  by (simp split: if_splits)

lemma createGroup_OK:
  assumes "createGroup toLowerCase db now b = ((OK, body), db')"
  shows "\<exists>g. body = Json g \<and> g = \<lparr>g_id = uuid (map g_id (groups db)),
                    g_name = toLowerCase (gb_name b),
                    g_profileImage = or_empty (gb_profileImage b),
                    g_coverImage = gb_coverImage b,
                    g_bio = Some (toLowerCase (gb_bio b)), g_createdAt = now,
                    g_creatorId = gb_creatorId b\<rparr>
          \<and> groupUser_createNested (db\<lparr>groups := groups db @ [g]\<rparr>) (g_id g)
                ((gb_creatorId b, Some True) # gb_members b) = Inr db'"
  using assms
  by (auto simp: createGroup_def group_create_def Let_def split: sum.splits if_splits)

text \<open>
  Every create that answers 200 has stored the lower-cased name and bio, the empty string
  for a \<open>profileImage\<close> that is missing or empty, and a \<open>GroupUser\<close> row of the
  creator with \<open>isAdmin\<close> true. The call answers 409 whenever the lower-cased name,
  with the creator, is the (name, creatorId) of a stored group.
\<close>

lemma createGroup_stores_lower_case:
  "(\<forall>body db'. createGroup toLowerCase db now b = ((OK, body), db') \<longrightarrow>
      (\<exists>g. body = Json g
          \<and> g_name g = toLowerCase (gb_name b)
          \<and> g_bio g = Some (toLowerCase (gb_bio b))
          \<and> g_profileImage g
              = (case gb_profileImage b of None \<Rightarrow> [] | Some s \<Rightarrow> s)
          \<and> g_creatorId g = gb_creatorId b
          \<and> groups db' = groups db @ [g]
          \<and> groupUser_findUnique db' (gb_creatorId b) (g_id g)
              = Some \<lparr>gu_userId = gb_creatorId b, gu_groupId = g_id g, gu_isAdmin = True\<rparr>))
   \<and> ((toLowerCase (gb_name b), gb_creatorId b)
         \<in> set (map (\<lambda>h. (g_name h, g_creatorId h)) (groups db)) \<longrightarrow>
       createGroup toLowerCase db now b = ((CONFLICT, Message ''Group already exists''), db))"
proof (intro conjI allI impI)
  fix body db'
  assume ok: "createGroup toLowerCase db now b = ((OK, body), db')"
  from createGroup_OK [OF ok] obtain g where
    body: "body = Json g"
    and g: "g = \<lparr>g_id = uuid (map g_id (groups db)),
                    g_name = toLowerCase (gb_name b),
                    g_profileImage = or_empty (gb_profileImage b),
                    g_coverImage = gb_coverImage b,
                    g_bio = Some (toLowerCase (gb_bio b)), g_createdAt = now,
                    g_creatorId = gb_creatorId b\<rparr>"
    and nested: "groupUser_createNested (db\<lparr>groups := groups db @ [g]\<rparr>) (g_id g)
                ((gb_creatorId b, Some True) # gb_members b) = Inr db'"
    by blast
  let ?row = "\<lparr>gu_userId = gb_creatorId b, gu_groupId = g_id g, gu_isAdmin = True\<rparr>"
  from groupUser_createNested_Inr [OF nested]
  have db': "db' = db\<lparr>groups := groups db @ [g],
                      groupUsers := groupUsers db
                        @ ?row # map (member_row (g_id g)) (gb_members b)\<rparr>"
    by (simp add: member_row_def keep_def)
  from groupUser_createNested_first [OF nested]
  have "find (\<lambda>m. gu_userId m = gb_creatorId b \<and> gu_groupId m = g_id g) (groupUsers db)
          = None"
    by (force simp: find_None_iff)
  then have found: "groupUser_findUnique db' (gb_creatorId b) (g_id g) = Some ?row"
    by (simp add: groupUser_findUnique_def db' find_append)
  have img: "g_profileImage g = (case gb_profileImage b of None \<Rightarrow> [] | Some s \<Rightarrow> s)"
    by (simp add: g or_empty_def split: option.splits)
  from body g db' found img
  show "\<exists>g. body = Json g
          \<and> g_name g = toLowerCase (gb_name b)
          \<and> g_bio g = Some (toLowerCase (gb_bio b))
          \<and> g_profileImage g
              = (case gb_profileImage b of None \<Rightarrow> [] | Some s \<Rightarrow> s)
          \<and> g_creatorId g = gb_creatorId b
          \<and> groups db' = groups db @ [g]
          \<and> groupUser_findUnique db' (gb_creatorId b) (g_id g)
              = Some \<lparr>gu_userId = gb_creatorId b, gu_groupId = g_id g, gu_isAdmin = True\<rparr>"
    by (intro exI [of _ g]) simp
next
  assume "(toLowerCase (gb_name b), gb_creatorId b)
         \<in> set (map (\<lambda>h. (g_name h, g_creatorId h)) (groups db))"
  then show "createGroup toLowerCase db now b = ((CONFLICT, Message ''Group already exists''), db)"
    by (simp add: createGroup_def group_create_def)
qed

lemma lower_Gophers: "ascii_toLowerCase ''Gophers'' = ''gophers''"
  by code_simp

lemma lower_We_Like_Go: "ascii_toLowerCase ''We Like Go'' = ''we like go''"
  by code_simp

lemma lower_Rustaceans: "ascii_toLowerCase ''Rustaceans'' = ''rustaceans''"
  by code_simp

lemma lower_Again: "ascii_toLowerCase ''Again'' = ''again''"
  by code_simp

lemma createGroup_stores_lower_case_example:
  "createGroup ascii_toLowerCase store0 4 gophers_body
     = ((OK, Json \<lparr>g_id = ''uuu'', g_name = ''gophers'', g_profileImage = [],
                   g_coverImage = None, g_bio = Some ''we like go'', g_createdAt = 4,
                   g_creatorId = ''u1''\<rparr>),
        store0\<lparr>groups := groups store0 @
                  [\<lparr>g_id = ''uuu'', g_name = ''gophers'', g_profileImage = [],
                    g_coverImage = None, g_bio = Some ''we like go'', g_createdAt = 4,
                    g_creatorId = ''u1''\<rparr>],
               groupUsers := groupUsers store0 @
                  [\<lparr>gu_userId = ''u1'', gu_groupId = ''uuu'', gu_isAdmin = True\<rparr>,
                   \<lparr>gu_userId = ''u2'', gu_groupId = ''uuu'', gu_isAdmin = False\<rparr>]\<rparr>)
   \<and> groupUser_findUnique (snd (createGroup ascii_toLowerCase store0 4 gophers_body)) ''u1'' ''uuu''
       = Some \<lparr>gu_userId = ''u1'', gu_groupId = ''uuu'', gu_isAdmin = True\<rparr>
   \<and> createGroup ascii_toLowerCase store0 4 rustaceans_body
       = ((CONFLICT, Message ''Group already exists''), store0)"
proof -
  have ok: "createGroup ascii_toLowerCase store0 4 gophers_body
     = ((OK, Json \<lparr>g_id = ''uuu'', g_name = ''gophers'', g_profileImage = [],
                   g_coverImage = None, g_bio = Some ''we like go'', g_createdAt = 4,
                   g_creatorId = ''u1''\<rparr>),
        store0\<lparr>groups := groups store0 @
                  [\<lparr>g_id = ''uuu'', g_name = ''gophers'', g_profileImage = [],
                    g_coverImage = None, g_bio = Some ''we like go'', g_createdAt = 4,
                    g_creatorId = ''u1''\<rparr>],
               groupUsers := groupUsers store0 @
                  [\<lparr>gu_userId = ''u1'', gu_groupId = ''uuu'', gu_isAdmin = True\<rparr>,
                   \<lparr>gu_userId = ''u2'', gu_groupId = ''uuu'', gu_isAdmin = False\<rparr>]\<rparr>)"
    by (simp add: createGroup_def group_create_def gophers_body_def lower_Gophers
          lower_We_Like_Go or_empty_def uuid_def keep_def member_row_def store0_def
          rustaceans_def alice_def bob_def Let_def)
  have dup: "(ascii_toLowerCase (gb_name rustaceans_body), gb_creatorId rustaceans_body)
               \<in> set (map (\<lambda>h. (g_name h, g_creatorId h)) (groups store0))"
    by (simp add: rustaceans_body_def lower_Rustaceans store0_def rustaceans_def)
  note t1 = createGroup_stores_lower_case [of ascii_toLowerCase store0 4 gophers_body]
  note t2 = createGroup_stores_lower_case [of ascii_toLowerCase store0 4 rustaceans_body]
  from t1 ok
  have m: "groupUser_findUnique (snd (createGroup ascii_toLowerCase store0 4 gophers_body)) ''u1'' ''uuu''
       = Some \<lparr>gu_userId = ''u1'', gu_groupId = ''uuu'', gu_isAdmin = True\<rparr>"
    by (auto simp: gophers_body_def)
  from t2 dup
  have c: "createGroup ascii_toLowerCase store0 4 rustaceans_body
       = ((CONFLICT, Message ''Group already exists''), store0)"
    by blast
  from ok m c show ?thesis by blast
qed

lemma store_renamed_eq:
  "store_renamed = store0\<lparr>groups := [rustaceans\<lparr>g_name := ''Rustaceans''\<rparr>]\<rparr>"
  by (simp add: store_renamed_def editGroup_def not_creator_def group_findUnique_def
        group_update_def group_data_def keep_def keep_opt_def store0_def rustaceans_def)

text \<open>
  C10. The creator of \<open>g1\<close> renames it to \<open>Rustaceans\<close>: \<open>PATCH /:id\<close> stores the
  name as given, where \<open>POST /create\<close> lower-cases it. A create by the same creator
  with the name \<open>Rustaceans\<close>, the very casing of the existing name, then stores
  \<open>rustaceans\<close> and answers 200 rather than 409, and the creator has two groups,
  \<open>Rustaceans\<close> and \<open>rustaceans\<close>. This holds for every \<open>toLowerCase\<close> that maps
  \<open>Rustaceans\<close> to \<open>rustaceans\<close>, as the built-in does.
\<close>

theorem createGroup_after_rename_is_OK:
  assumes "toLowerCase ''Rustaceans'' = ''rustaceans''"
  shows "editGroup store0 ''g1'' (Some ''Rustaceans'') None None None ''u1''
           = ((OK, Json (rustaceans\<lparr>g_name := ''Rustaceans''\<rparr>)), store_renamed)
       \<and> map (\<lambda>h. (g_name h, g_creatorId h)) (groups store_renamed)
           = [(''Rustaceans'', ''u1'')]
       \<and> gb_name rustaceans_body = ''Rustaceans'' \<and> gb_creatorId rustaceans_body = ''u1''
       \<and> fst (fst (createGroup toLowerCase store_renamed 4 rustaceans_body)) = OK
       \<and> map (\<lambda>h. (g_name h, g_creatorId h))
            (groups (snd (createGroup toLowerCase store_renamed 4 rustaceans_body)))
           = [(''Rustaceans'', ''u1''), (''rustaceans'', ''u1'')]"
proof -
  have e: "editGroup store0 ''g1'' (Some ''Rustaceans'') None None None ''u1''
     = ((OK, Json (rustaceans\<lparr>g_name := ''Rustaceans''\<rparr>)), store_renamed)"
    by (simp add: store_renamed_eq)
       (simp add: editGroup_def not_creator_def group_findUnique_def
          group_update_def group_data_def keep_def keep_opt_def store0_def rustaceans_def)
  have g: "map (\<lambda>h. (g_name h, g_creatorId h)) (groups store_renamed)
             = [(''Rustaceans'', ''u1'')]"
    by (simp add: store_renamed_eq rustaceans_def)
  have c: "createGroup toLowerCase store_renamed 4 rustaceans_body
     = ((OK, Json \<lparr>g_id = ''uuu'', g_name = ''rustaceans'', g_profileImage = [],
                   g_coverImage = None, g_bio = Some (toLowerCase ''Again''),
                   g_createdAt = 4, g_creatorId = ''u1''\<rparr>),
        store_renamed\<lparr>groups := groups store_renamed @
                  [\<lparr>g_id = ''uuu'', g_name = ''rustaceans'', g_profileImage = [],
                    g_coverImage = None, g_bio = Some (toLowerCase ''Again''),
                    g_createdAt = 4, g_creatorId = ''u1''\<rparr>],
               groupUsers := groupUsers store_renamed @
                  [\<lparr>gu_userId = ''u1'', gu_groupId = ''uuu'', gu_isAdmin = True\<rparr>]\<rparr>)"
    using assms
    by (simp add: createGroup_def group_create_def rustaceans_body_def
          or_empty_def uuid_def keep_def member_row_def store_renamed_eq
          store0_def rustaceans_def alice_def bob_def Let_def)
  from e g c show ?thesis
    by (simp add: rustaceans_body_def store_renamed_eq rustaceans_def)
qed

theorem createGroup_after_rename_is_OK_witness:
  "ascii_toLowerCase ''Rustaceans'' = ''rustaceans''
   \<and> editGroup store0 ''g1'' (Some ''Rustaceans'') None None None ''u1''
       = ((OK, Json (rustaceans\<lparr>g_name := ''Rustaceans''\<rparr>)), store_renamed)
   \<and> map (\<lambda>h. (g_name h, g_creatorId h)) (groups store_renamed)
       = [(''Rustaceans'', ''u1'')]
   \<and> fst (fst (createGroup ascii_toLowerCase store_renamed 4 rustaceans_body)) = OK
   \<and> map (\<lambda>h. (g_name h, g_creatorId h))
        (groups (snd (createGroup ascii_toLowerCase store_renamed 4 rustaceans_body)))
       = [(''Rustaceans'', ''u1''), (''rustaceans'', ''u1'')]"
  using createGroup_after_rename_is_OK [of ascii_toLowerCase, OF lower_Rustaceans]
    lower_Rustaceans
  by blast

end
